theory Spec2Isabelle
  imports Main
begin

section \<open>msmtp\_mail: an e-mail builder and an msmtp transport client\<close>

text \<open>
  A shallow embedding of \<^verbatim>\<open>msmtp_mail.py\<close>. Every method of the two classes becomes a
  function that takes the state of the object, and of the world where the method touches
  it, and returns what the call produced together with the state it left behind:
  \<open>Inl e\<close> when the call raised \<open>e\<close>, \<open>Inr v\<close> when it returned \<open>v\<close>. Python strings are
  HOL strings, one character for each code point below U+0100; on ASCII text the functions
  compute what the Python computes. The calls to the \<^verbatim>\<open>logging\<close> module change nothing that
  the program reads and are left out.
\<close>

subsection \<open>Exceptions\<close>

datatype exn =
    EmailBuildError string
  | MsmtpSendError string
  | ValueError string
  | TypeError string
  | UnicodeEncodeError string
  | OSError string
  | TimeoutExpired string

subsection \<open>Constants of the module\<close>

definition MSMTP_ACCOUNT :: string where
  "MSMTP_ACCOUNT = ''gmail''"

definition MSMTP_FROM_EMAIL :: string where
  "MSMTP_FROM_EMAIL = ''u0992244071@gmail.com''"

definition MSMTP_DEFAULT_FULLNAME :: string where
  "MSMTP_DEFAULT_FULLNAME = ''N150 Home Server Monitoring''"

subsection \<open>Strings\<close>

text \<open>\<^verbatim>\<open>sep.join(xs)\<close>.\<close>

fun join :: "string \<Rightarrow> string list \<Rightarrow> string" where
  "join sep [] = []"
| "join sep [x] = x"
| "join sep (x # y # ys) = x @ sep @ join sep (y # ys)"

text \<open>\<^verbatim>\<open>needle in haystack\<close> on strings: some suffix of the haystack starts with the needle.\<close>

fun contains :: "string \<Rightarrow> string \<Rightarrow> bool" where
  "contains needle [] = (needle = [])"
| "contains needle (c # cs) = (take (length needle) (c # cs) = needle \<or> contains needle cs)"

subsection \<open>Recipient flattening\<close>

text \<open>
  \<^verbatim>\<open>list(dict.fromkeys(xs))\<close>: the keys are inserted one after the other into a dictionary
  that keeps insertion order; inserting a key that is already present leaves its position
  alone. \<open>fromkeys_step\<close> is one insertion, on the list of keys inserted so far.
\<close>

definition fromkeys_step :: "'a list \<Rightarrow> 'a \<Rightarrow> 'a list" where
  "fromkeys_step d k = (if k \<in> set d then d else d @ [k])"

definition dict_fromkeys :: "'a list \<Rightarrow> 'a list" where
  "dict_fromkeys xs = foldl fromkeys_step [] xs"

text \<open>
  The specification's wording, for comparison with the code: the deduplicated union in
  first-seen order keeps the first occurrence of every element and drops the later ones.
\<close>

fun first_seen :: "'a list \<Rightarrow> 'a list" where
  "first_seen [] = []"
| "first_seen (x # xs) = x # first_seen (filter (\<lambda>y. y \<noteq> x) xs)"

subsection \<open>Characters, lines and numbers\<close>

text \<open>ASCII test (\<^verbatim>\<open>s.encode('ascii')\<close> succeeds): no character has its top bit set.\<close>

definition is_ascii :: "string \<Rightarrow> bool" where
  "is_ascii s = list_all (\<lambda>c. \<not> digit7 c) s"

text \<open>\<^verbatim>\<open>str.lower\<close> on the ASCII letters, which is all that header names and content types use.\<close>

definition lower_char :: "char \<Rightarrow> char" where
  "lower_char c =
     (case map_of (zip ''ABCDEFGHIJKLMNOPQRSTUVWXYZ'' ''abcdefghijklmnopqrstuvwxyz'') c of
        Some d \<Rightarrow> d
      | None \<Rightarrow> c)"

definition lower :: "string \<Rightarrow> string" where
  "lower s = map lower_char s"

text \<open>
  The line boundaries of \<^verbatim>\<open>str.splitlines\<close> (below U+0100) and of
  \<^verbatim>\<open>bytes.splitlines\<close>.
\<close>

definition str_linebreak :: "char \<Rightarrow> bool" where
  "str_linebreak c =
     (c \<in> set [CHR 0x0A, CHR 0x0B, CHR 0x0C, CHR 0x0D, CHR 0x1C, CHR 0x1D, CHR 0x1E, CHR 0x85])"

definition bytes_linebreak :: "char \<Rightarrow> bool" where
  "bytes_linebreak c = (c = CHR 0x0A \<or> c = CHR 0x0D)"

text \<open>
  \<^verbatim>\<open>splitlines()\<close>: \<open>cur\<close> is the line read so far. A carriage return followed by a
  line feed is one boundary, and a boundary at the very end opens no further line.
\<close>

fun splitlines :: "(char \<Rightarrow> bool) \<Rightarrow> string \<Rightarrow> string \<Rightarrow> string list" where
  "splitlines brk cur [] = (if cur = [] then [] else [cur])"
| "splitlines brk cur [c] = (if brk c then [cur] else [cur @ [c]])"
| "splitlines brk cur (c # d # cs) =
     (if brk c \<and> c = CHR 0x0D \<and> d = CHR 0x0A then cur # splitlines brk [] cs
      else if brk c then cur # splitlines brk [] (d # cs)
      else splitlines brk (cur @ [c]) (d # cs))"

text \<open>Whitespace removed by \<^verbatim>\<open>str.strip()\<close> (below U+0100).\<close>

definition is_space :: "char \<Rightarrow> bool" where
  "is_space c =
     (c \<in> set [CHR 0x09, CHR 0x0A, CHR 0x0B, CHR 0x0C, CHR 0x0D, CHR 0x1C, CHR 0x1D, CHR 0x1E,
                CHR 0x1F, CHR 0x20, CHR 0x85, CHR 0xA0])"

definition strip :: "string \<Rightarrow> string" where
  "strip s = rev (dropWhile is_space (rev (dropWhile is_space s)))"

text \<open>Decimal digits of a number, and the zero-padded two-digit form.\<close>

definition digit :: "nat \<Rightarrow> char" where
  "digit n = ''0123456789'' ! n"

fun show_nat :: "nat \<Rightarrow> string" where
  "show_nat n = (if n < 10 then [digit n] else show_nat (n div 10) @ [digit (n mod 10)])"

declare show_nat.simps [simp del]

definition pad2 :: "nat \<Rightarrow> string" where
  "pad2 n = (if n < 10 then ''0'' @ show_nat n else show_nat n)"

subsection \<open>The message object\<close>

text \<open>
  An \<^verbatim>\<open>EmailMessage\<close> is a list of headers, in the order in which they were added, and a
  payload. The list \<open>headers\<close> holds the headers that are set by assignment
  \<^verbatim>\<open>msg[name] = value\<close>; the MIME headers that the library maintains for the content
  (\<^verbatim>\<open>Content-Type\<close> and its companions) travel with the payload: \<open>Content t d\<close> is a
  single body whose \<^verbatim>\<open>Content-Type\<close> header reads \<open>t\<close> and whose decoded payload is
  \<open>d\<close>, \<open>Multipart ps\<close> is a \<^verbatim>\<open>multipart/mixed\<close> container as
  \<^verbatim>\<open>add_attachment\<close> leaves it, and \<open>NoPayload\<close> is the payload \<^verbatim>\<open>None\<close> of a
  fresh message.
\<close>

datatype part = Part (part_content_type: string) (part_payload: string)

datatype payload = NoPayload | Content string string | Multipart "part list"

record message =
  headers :: "(string \<times> string) list"
  payload :: payload

text \<open>
  What the module takes from the standard library without looking inside:
  \<^item> \<open>header_factory name value\<close>: the text of the header object that the policy's
    header registry builds from an assigned value (it parses the value and renders it
    again, so addresses and display names may come back re-quoted or with their white
    space normalised);
  \<^item> \<open>header_encode name\<close>: the RFC 2047 encoded word for a display name that is not
    ASCII (\<^verbatim>\<open>Charset('utf-8').header_encode\<close>);
  \<^item> \<open>as_bytes m\<close>: the wire form of a message.
\<close>

record email_lib =
  header_factory :: "string \<Rightarrow> string \<Rightarrow> string"
  header_encode :: "string \<Rightarrow> string"
  as_bytes :: "message \<Rightarrow> string"

text \<open>
  \<^verbatim>\<open>policy.header_max_count(name)\<close> for the default policy: the header classes of the
  registry that allow one occurrence only.
\<close>

definition unique_headers :: "string list" where
  "unique_headers =
     [''subject'', ''date'', ''orig-date'', ''sender'', ''to'', ''cc'', ''bcc'', ''from'',
      ''reply-to'', ''mime-version'', ''content-type'', ''content-disposition'',
      ''content-transfer-encoding'', ''message-id'']"

definition header_max_count :: "string \<Rightarrow> nat option" where
  "header_max_count name = (if lower name \<in> set unique_headers then Some 1 else None)"

text \<open>The number of headers of that name already in the message, names compared in lower case.\<close>

definition count_headers :: "message \<Rightarrow> string \<Rightarrow> nat" where
  "count_headers m name = length (filter (\<lambda>(k, v). lower k = lower name) (headers m))"

text \<open>
  \<^verbatim>\<open>policy.header_store_parse(name, value)\<close>: a value that \<^verbatim>\<open>splitlines()\<close> cuts into more
  than one line is refused.
\<close>

definition header_store_parse :: "email_lib \<Rightarrow> string \<Rightarrow> string \<Rightarrow> exn + (string \<times> string)" where
  "header_store_parse lib name val =
     (if 1 < length (splitlines str_linebreak [] val)
      then Inl (ValueError ''Header values may not contain linefeed or carriage return characters'')
      else Inr (name, header_factory lib name val))"

text \<open>
  \<^verbatim>\<open>msg[name] = val\<close> (\<^verbatim>\<open>Message.__setitem__\<close>): the header is appended, never
  overwritten, and the assignment raises when the header may occur only so many times and
  already does. A raise leaves the message as it was.
\<close>

definition append_header :: "email_lib \<Rightarrow> message \<Rightarrow> string \<Rightarrow> string \<Rightarrow> exn + message" where
  "append_header lib m name val =
     (case header_store_parse lib name val of
        Inl e \<Rightarrow> Inl e
      | Inr h \<Rightarrow> Inr (m\<lparr>headers := headers m @ [h]\<rparr>))"

definition setitem :: "email_lib \<Rightarrow> message \<Rightarrow> string \<Rightarrow> string \<Rightarrow> exn + message" where
  "setitem lib m name val =
     (case header_max_count name of
        None \<Rightarrow> append_header lib m name val
      | Some max_count \<Rightarrow>
          if 0 < max_count \<and> max_count \<le> count_headers m name
          then Inl (ValueError (''There may be at most '' @ show_nat max_count @ '' '' @ name
                      @ '' headers in a message''))
          else append_header lib m name val)"

text \<open>\<^verbatim>\<open>msg.get(name)\<close>, also \<^verbatim>\<open>msg[name]\<close>: the first header of that name, or \<^verbatim>\<open>None\<close>.\<close>

definition msg_get :: "message \<Rightarrow> string \<Rightarrow> string option" where
  "msg_get m name = map_of (map (\<lambda>(k, v). (lower k, v)) (headers m)) (lower name)"

text \<open>
  \<^verbatim>\<open>get_content_type()\<close> from the text of a \<^verbatim>\<open>Content-Type\<close> header: what stands before
  the first semicolon, stripped and in lower case, or \<^verbatim>\<open>text/plain\<close> when that has not
  exactly one slash.
\<close>

definition content_type_of :: "string \<Rightarrow> string" where
  "content_type_of val =
     (let ctype = lower (strip (takeWhile (\<lambda>c. c \<noteq> CHR '';'') val))
      in if count_list ctype (CHR ''/'') \<noteq> 1 then ''text/plain'' else ctype)"

definition get_content_type :: "message \<Rightarrow> string" where
  "get_content_type m =
     (case payload m of
        NoPayload \<Rightarrow> ''text/plain''
      | Content t d \<Rightarrow> content_type_of t
      | Multipart ps \<Rightarrow> ''multipart/mixed'')"

definition get_content_maintype :: "message \<Rightarrow> string" where
  "get_content_maintype m = takeWhile (\<lambda>c. c \<noteq> CHR ''/'') (get_content_type m)"

text \<open>
  \<^verbatim>\<open>email.utils.formataddr((name, address))\<close>. The characters of \<^verbatim>\<open>specialsre\<close> make the
  display name a quoted string; a backslash or a double quote in it is escaped by a
  backslash (\<^verbatim>\<open>escapesre\<close>).
\<close>

definition specials :: string where
  "specials = ''[]()<>@,:;.'' @ [CHR 0x5C, CHR 0x22]"

definition escape_char :: "char \<Rightarrow> string" where
  "escape_char c = (if c = CHR 0x5C \<or> c = CHR 0x22 then [CHR 0x5C, c] else [c])"

definition formataddr :: "email_lib \<Rightarrow> string \<Rightarrow> string \<Rightarrow> exn + string" where
  "formataddr lib name address =
     (if \<not> is_ascii address then Inl (UnicodeEncodeError ''ascii'')
      else if name \<noteq> [] then
        (if \<not> is_ascii name then Inr (header_encode lib name @ '' <'' @ address @ ''>'')
         else
           (let quotes = (if list_ex (\<lambda>c. c \<in> set specials) name then [CHR 0x22] else [])
            in Inr (quotes @ concat (map escape_char name) @ quotes @ '' <'' @ address @ ''>'')))
      else Inr address)"

subsection \<open>EmailMessageBuilder\<close>

record builder =
  msg :: message
  from_full_name :: string
  to :: "string list"
  cc :: "string list"
  bcc :: "string list"

text \<open>\<^verbatim>\<open>EmailMessageBuilder()\<close>.\<close>

definition new_builder :: builder where
  "new_builder =
     \<lparr>msg = \<lparr>headers = [], payload = NoPayload\<rparr>,
      from_full_name = MSMTP_DEFAULT_FULLNAME, to = [], cc = [], bcc = []\<rparr>"

definition set_from_full_name :: "string \<Rightarrow> builder \<Rightarrow> builder" where
  "set_from_full_name name b = b\<lparr>from_full_name := name\<rparr>"

definition add_to :: "string \<Rightarrow> builder \<Rightarrow> builder" where
  "add_to email b = b\<lparr>to := to b @ [email]\<rparr>"

definition add_cc :: "string \<Rightarrow> builder \<Rightarrow> builder" where
  "add_cc email b = b\<lparr>cc := cc b @ [email]\<rparr>"

definition add_bcc :: "string \<Rightarrow> builder \<Rightarrow> builder" where
  "add_bcc email b = b\<lparr>bcc := bcc b @ [email]\<rparr>"

text \<open>\<^verbatim>\<open>recipients()\<close>.\<close>

definition recipients :: "builder \<Rightarrow> string list" where
  "recipients b = dict_fromkeys (to b @ cc b @ bcc b)"

text \<open>\<^verbatim>\<open>set_subject(subject)\<close>.\<close>

definition set_subject :: "email_lib \<Rightarrow> string \<Rightarrow> builder \<Rightarrow> (exn + unit) \<times> builder" where
  "set_subject lib subject b =
     (case setitem lib (msg b) ''Subject'' subject of
        Inl e \<Rightarrow> (Inl e, b)
      | Inr m \<Rightarrow> (Inr (), b\<lparr>msg := m\<rparr>))"

text \<open>
  \<^verbatim>\<open>set_body(text, subtype)\<close>, that is \<^verbatim>\<open>EmailMessage.set_content\<close> on a string: refused on
  a multipart message; otherwise the old content is cleared first, and then the new
  \<^verbatim>\<open>Content-Type\<close> is assigned, which can still raise. The decoded payload is the text
  with its lines joined and closed by line feeds.
\<close>

definition body_bytes :: "string \<Rightarrow> string" where
  "body_bytes text = join [CHR 0x0A] (splitlines bytes_linebreak [] text) @ [CHR 0x0A]"

definition set_body :: "string \<Rightarrow> string \<Rightarrow> builder \<Rightarrow> (exn + unit) \<times> builder" where
  "set_body text subtype b =
     (if get_content_maintype (msg b) = ''multipart''
      then (Inl (TypeError ''set_content not valid on multipart''), b)
      else if 1 < length (splitlines str_linebreak [] (''text/'' @ subtype))
      then (Inl (ValueError ''Header values may not contain linefeed or carriage return characters''),
            b\<lparr>msg := (msg b)\<lparr>payload := NoPayload\<rparr>\<rparr>)
      else (Inr (),
            b\<lparr>msg := (msg b)\<lparr>payload :=
                 Content (''text/'' @ subtype @ ''; charset='' @ [CHR 0x22] @ ''utf-8'' @ [CHR 0x22])
                         (body_bytes text)\<rparr>\<rparr>))"

text \<open>
  The body check of \<^verbatim>\<open>build()\<close>: a multipart message needs a part of type
  \<^verbatim>\<open>text/plain\<close> or \<^verbatim>\<open>text/html\<close>; any other message needs a payload that is not empty
  (\<^verbatim>\<open>get_payload(decode=True)\<close> is \<^verbatim>\<open>None\<close> on a fresh message).
\<close>

definition text_parts :: "part list \<Rightarrow> part list" where
  "text_parts ps =
     filter (\<lambda>p. content_type_of (part_content_type p) \<in> set [''text/plain'', ''text/html'']) ps"

definition check_body :: "message \<Rightarrow> exn option" where
  "check_body m =
     (case payload m of
        Multipart ps \<Rightarrow>
          if text_parts ps = [] then Some (EmailBuildError ''No body set in multipart message.'')
          else None
      | NoPayload \<Rightarrow> Some (EmailBuildError ''No body set.'')
      | Content t d \<Rightarrow> if d = [] then Some (EmailBuildError ''No body set.'') else None)"

text \<open>
  \<^verbatim>\<open>build()\<close>. The three checks raise before anything is written; after them the headers
  are assigned one by one, so an assignment that raises leaves the headers assigned before
  it in the message.
\<close>

definition build :: "email_lib \<Rightarrow> builder \<Rightarrow> (exn + message) \<times> builder" where
  "build lib b =
     (if \<not> (to b \<noteq> [] \<or> cc b \<noteq> [] \<or> bcc b \<noteq> [])
      then (Inl (EmailBuildError ''No recipients set (add_to/add_cc/add_bcc).''), b)
      else if msg_get (msg b) ''Subject'' \<in> {None, Some []}
      then (Inl (EmailBuildError ''No subject set.''), b)
      else (case check_body (msg b) of
        Some e \<Rightarrow> (Inl e, b)
      | None \<Rightarrow>
        (case formataddr lib (from_full_name b) MSMTP_FROM_EMAIL of
          Inl e \<Rightarrow> (Inl e, b)
        | Inr sender \<Rightarrow>
          (case setitem lib (msg b) ''From'' sender of
            Inl e \<Rightarrow> (Inl e, b)
          | Inr m1 \<Rightarrow>
            (case (if to b \<noteq> [] then setitem lib m1 ''To'' (join '', '' (to b)) else Inr m1) of
              Inl e \<Rightarrow> (Inl e, b\<lparr>msg := m1\<rparr>)
            | Inr m2 \<Rightarrow>
              (case (if cc b \<noteq> [] then setitem lib m2 ''Cc'' (join '', '' (cc b)) else Inr m2) of
                Inl e \<Rightarrow> (Inl e, b\<lparr>msg := m2\<rparr>)
              | Inr m3 \<Rightarrow> (Inr m3, b\<lparr>msg := m3\<rparr>)))))))"

subsection \<open>The recipients file\<close>

text \<open>
  What \<^verbatim>\<open>json.load\<close> hands back. An object is its list of members in the order of the
  file, each key once; an array holds the address strings that a recipients file lists
  (\<^verbatim>\<open>List[str]\<close> throughout the module); numbers are kept as integers.
\<close>

datatype json =
    JNull
  | JBool bool
  | JNum int
  | JStr string
  | JArr "string list"
  | JObj "(string \<times> json) list"

text \<open>\<^verbatim>\<open>str(e)\<close>: every exception here carries its message.\<close>

fun exn_str :: "exn \<Rightarrow> string" where
  "exn_str (EmailBuildError s) = s"
| "exn_str (MsmtpSendError s) = s"
| "exn_str (ValueError s) = s"
| "exn_str (TypeError s) = s"
| "exn_str (UnicodeEncodeError s) = s"
| "exn_str (OSError s) = s"
| "exn_str (TimeoutExpired s) = s"

text \<open>Truth value of a loaded document (\<^verbatim>\<open>if not emails\<close>).\<close>

fun truthy :: "json \<Rightarrow> bool" where
  "truthy JNull = False"
| "truthy (JBool v) = v"
| "truthy (JNum n) = (n \<noteq> 0)"
| "truthy (JStr s) = (s \<noteq> [])"
| "truthy (JArr xs) = (xs \<noteq> [])"
| "truthy (JObj kvs) = (kvs \<noteq> [])"

text \<open>
  \<^verbatim>\<open>for email in emails\<close>: a list yields its items, a string its characters, a dictionary
  its keys; anything else is not iterable.
\<close>

fun py_iter :: "json \<Rightarrow> exn + string list" where
  "py_iter (JArr xs) = Inr xs"
| "py_iter (JStr s) = Inr (map (\<lambda>c. [c]) s)"
| "py_iter (JObj kvs) = Inr (map fst kvs)"
| "py_iter (JBool v) = Inl (TypeError ([CHR 0x27] @ ''bool'' @ [CHR 0x27] @ '' object is not iterable''))"
| "py_iter (JNum n) = Inl (TypeError ([CHR 0x27] @ ''int'' @ [CHR 0x27] @ '' object is not iterable''))"
| "py_iter JNull = Inl (TypeError ([CHR 0x27] @ ''NoneType'' @ [CHR 0x27] @ '' object is not iterable''))"

subsection \<open>The world outside\<close>

text \<open>
  \<^verbatim>\<open>subprocess.run\<close> either raises (the program cannot be started, the timeout expires)
  or completes with a return code; \<open>Completed rc err\<close> carries the text of
  \<^verbatim>\<open>proc.stderr.decode(errors="ignore")\<close>.
\<close>

datatype run_result = RunRaised exn | Completed int string

record datetime =
  year :: nat
  month :: nat
  day :: nat
  hour :: nat
  minute :: nat
  second :: nat

text \<open>
  The environment of a call:
  \<^item> \<open>read_json path\<close>: what opening \<open>path\<close> and \<^verbatim>\<open>json.load\<close> give, the exception raised or
    the document;
  \<^item> \<open>isfile path\<close>, \<open>read_bytes path\<close> and \<open>guess_type path\<close>: \<^verbatim>\<open>os.path.isfile\<close>, the
    content of a file read in binary mode (or the exception raised) and the type that
    \<^verbatim>\<open>mimetypes.guess_type\<close> proposes;
  \<^item> \<open>subprocess cmd input timeout\<close>: how the external program behaves, and \<open>calls\<close>, the
    invocations made so far;
  \<^item> \<open>now\<close>: the clock;
  \<^item> \<open>makedirs_error d\<close> and \<open>open_error path\<close>: the exception with which the operating
    system refuses to create directory \<open>d\<close> or to open \<open>path\<close> for appending, if it does;
  \<^item> \<open>dirs\<close> and \<open>files\<close>: the directories created and the text files written.
\<close>

record world =
  read_json :: "string \<Rightarrow> exn + json"
  isfile :: "string \<Rightarrow> bool"
  read_bytes :: "string \<Rightarrow> exn + string"
  guess_type :: "string \<Rightarrow> string option"
  subprocess :: "string list \<Rightarrow> string \<Rightarrow> int \<Rightarrow> run_result"
  calls :: "(string list \<times> string \<times> int) list"
  now :: datetime
  makedirs_error :: "string \<Rightarrow> exn option"
  open_error :: "string \<Rightarrow> exn option"
  dirs :: "string set"
  files :: "string \<Rightarrow> string option"

text \<open>
  \<^verbatim>\<open>load_recipients_from_file(path)\<close>. \<open>recipient_emails\<close> is the choice of \<^verbatim>\<open>emails\<close> by
  the shape of the document, \<open>try_load\<close> the body of the \<^verbatim>\<open>try\<close>, and the handler wraps
  whatever that body raised, its own build errors included.
\<close>

definition recipient_emails :: "json \<Rightarrow> exn + json" where
  "recipient_emails data =
     (case data of
        JObj kvs \<Rightarrow> Inr (case map_of kvs ''recipients'' of None \<Rightarrow> JArr [] | Some v \<Rightarrow> v)
      | JArr xs \<Rightarrow> Inr (JArr xs)
      | _ \<Rightarrow> Inl (EmailBuildError ''Recipient file format not recognized.''))"

definition try_load :: "world \<Rightarrow> string \<Rightarrow> builder \<Rightarrow> (exn + unit) \<times> builder" where
  "try_load w path b =
     (case read_json w path of
        Inl e \<Rightarrow> (Inl e, b)
      | Inr data \<Rightarrow>
        (case recipient_emails data of
           Inl e \<Rightarrow> (Inl e, b)
         | Inr emails \<Rightarrow>
             if \<not> truthy emails
             then (Inl (EmailBuildError ''No emails found in recipient file.''), b)
             else (case py_iter emails of
                     Inl e \<Rightarrow> (Inl e, b)
                   | Inr items \<Rightarrow> (Inr (), fold add_to items b))))"

definition load_recipients_from_file :: "world \<Rightarrow> string \<Rightarrow> builder \<Rightarrow> (exn + unit) \<times> builder" where
  "load_recipients_from_file w path b =
     (case try_load w path b of
        (Inl e, b') \<Rightarrow> (Inl (EmailBuildError (''Error reading recipient file: '' @ exn_str e)), b')
      | (Inr u, b') \<Rightarrow> (Inr u, b'))"

text \<open>
  \<^verbatim>\<open>msg.add_attachment(data, maintype=..., subtype=..., filename=...)\<close>. A message that is
  not \<^verbatim>\<open>multipart/mixed\<close> yet is made one first, its present content becoming the first
  part; then the new part is composed, which raises when its \<^verbatim>\<open>Content-Type\<close> or its
  quoted file name does not fit on one header line; then the part is attached.
\<close>

definition make_mixed :: "message \<Rightarrow> exn + message" where
  "make_mixed m =
     (case payload m of
        NoPayload \<Rightarrow> Inr (m\<lparr>payload := Multipart []\<rparr>)
      | Content t d \<Rightarrow> Inr (m\<lparr>payload := Multipart [Part t d]\<rparr>)
      | Multipart ps \<Rightarrow> Inl (ValueError ''Cannot convert mixed to mixed''))"

definition attach_part ::
  "message \<Rightarrow> string \<Rightarrow> string \<Rightarrow> string \<Rightarrow> string \<Rightarrow> (exn + unit) \<times> message" where
  "attach_part m data maintype subtype filename =
     (if 1 < length (splitlines str_linebreak [] (maintype @ ''/'' @ subtype))
         \<or> list_ex str_linebreak filename
      then (Inl (ValueError ''Header values may not contain linefeed or carriage return characters''), m)
      else (case payload m of
              Multipart ps \<Rightarrow>
                (Inr (), m\<lparr>payload := Multipart (ps @ [Part (maintype @ ''/'' @ subtype) data])\<rparr>)
            | _ \<Rightarrow>
                (Inl (TypeError ''Attach is not valid on a message with a non-multipart payload''), m)))"

definition msg_add_attachment ::
  "message \<Rightarrow> string \<Rightarrow> string \<Rightarrow> string \<Rightarrow> string \<Rightarrow> (exn + unit) \<times> message" where
  "msg_add_attachment m data maintype subtype filename =
     (if get_content_type m \<noteq> ''multipart/mixed''
      then (case make_mixed m of
              Inl e \<Rightarrow> (Inl e, m)
            | Inr m1 \<Rightarrow> attach_part m1 data maintype subtype filename)
      else attach_part m data maintype subtype filename)"

text \<open>\<^verbatim>\<open>os.path.basename\<close> (POSIX).\<close>

definition basename :: "string \<Rightarrow> string" where
  "basename p = rev (takeWhile (\<lambda>c. c \<noteq> CHR ''/'') (rev p))"

text \<open>
  \<^verbatim>\<open>add_attachment(path, mime_type, filename)\<close>. Unpacking \<^verbatim>\<open>mime_type.split("/", 1)\<close>
  into two names raises when the type has no slash.
\<close>

definition add_attachment ::
  "world \<Rightarrow> string \<Rightarrow> string option \<Rightarrow> string option \<Rightarrow> builder \<Rightarrow> (exn + unit) \<times> builder" where
  "add_attachment w path mime_type filename b =
     (if \<not> isfile w path then (Inl (EmailBuildError (''Attachment not found: '' @ path)), b)
      else
        (let mime = (case mime_type of
                       Some t \<Rightarrow> t
                     | None \<Rightarrow> (case guess_type w path of
                                  Some t \<Rightarrow> t
                                | None \<Rightarrow> ''application/octet-stream''))
         in if CHR ''/'' \<notin> set mime
            then (Inl (ValueError ''not enough values to unpack (expected 2, got 1)''), b)
            else (case read_bytes w path of
                    Inl e \<Rightarrow> (Inl e, b)
                  | Inr data \<Rightarrow>
                      (case msg_add_attachment (msg b) data
                              (takeWhile (\<lambda>c. c \<noteq> CHR ''/'') mime)
                              (tl (dropWhile (\<lambda>c. c \<noteq> CHR ''/'') mime))
                              (case filename of Some f \<Rightarrow> f | None \<Rightarrow> basename path) of
                         (Inl e, m) \<Rightarrow> (Inl e, b\<lparr>msg := m\<rparr>)
                       | (Inr u, m) \<Rightarrow> (Inr u, b\<lparr>msg := m\<rparr>)))))"

subsection \<open>MsmtpClient\<close>

record client =
  msmtp_path :: string
  log_file :: "string option"

text \<open>\<^verbatim>\<open>MsmtpClient()\<close> with its defaults.\<close>

definition new_client :: client where
  "new_client = \<lparr>msmtp_path = ''/usr/bin/msmtp'', log_file = None\<rparr>"

text \<open>\<^verbatim>\<open>_build_cmd(recipients)\<close>.\<close>

definition build_cmd :: "client \<Rightarrow> string list \<Rightarrow> string list" where
  "build_cmd c rcpts = [msmtp_path c, ''-a'', MSMTP_ACCOUNT] @ rcpts"

text \<open>\<^verbatim>\<open>os.path.dirname\<close> (POSIX).\<close>

definition dirname :: "string \<Rightarrow> string" where
  "dirname p =
     (let head = rev (dropWhile (\<lambda>c. c \<noteq> CHR ''/'') (rev p))
      in if head \<noteq> [] \<and> \<not> list_all (\<lambda>c. c = CHR ''/'') head
         then rev (dropWhile (\<lambda>c. c = CHR ''/'') (rev head))
         else head)"

text \<open>
  \<^verbatim>\<open>os.makedirs(d, exist_ok=True)\<close>: the empty path is no directory at all and is always
  refused; otherwise the operating system decides.
\<close>

definition makedirs :: "world \<Rightarrow> string \<Rightarrow> exn + world" where
  "makedirs w d =
     (if d = [] then Inl (OSError (''[Errno 2] No such file or directory: '' @ [CHR 0x27, CHR 0x27]))
      else (case makedirs_error w d of
              Some e \<Rightarrow> Inl e
            | None \<Rightarrow> Inr (w\<lparr>dirs := insert d (dirs w)\<rparr>)))"

text \<open>\<^verbatim>\<open>open(path, "a")\<close> and one \<^verbatim>\<open>write\<close>: the text goes to the end of the file.\<close>

definition append_file :: "world \<Rightarrow> string \<Rightarrow> string \<Rightarrow> exn + world" where
  "append_file w path text =
     (case open_error w path of
        Some e \<Rightarrow> Inl e
      | None \<Rightarrow>
          Inr (w\<lparr>files := (files w)(path \<mapsto> (case files w path of None \<Rightarrow> [] | Some old \<Rightarrow> old) @ text)\<rparr>))"

text \<open>\<^verbatim>\<open>strftime("%Y-%m-%d %H:%M:%S")\<close>.\<close>

definition strftime :: "datetime \<Rightarrow> string" where
  "strftime t =
     show_nat (year t) @ ''-'' @ pad2 (month t) @ ''-'' @ pad2 (day t) @ '' ''
       @ pad2 (hour t) @ '':'' @ pad2 (minute t) @ '':'' @ pad2 (second t)"

text \<open>
  \<^verbatim>\<open>repr\<close> of a string and of a list of strings, as an f-string prints a list. The string
  is quoted by apostrophes, or by double quotes when it holds an apostrophe and no double
  quote; backslash, the quote and the characters that are not printable are escaped.
\<close>

definition printable :: "char \<Rightarrow> bool" where
  "printable c =
     (let n = (of_char c :: nat) in \<not> (n < 32 \<or> (127 \<le> n \<and> n \<le> 160) \<or> n = 173))"

definition hex2 :: "char \<Rightarrow> string" where
  "hex2 c =
     (let n = (of_char c :: nat)
      in [''0123456789abcdef'' ! (n div 16), ''0123456789abcdef'' ! (n mod 16)])"

definition repr_char :: "char \<Rightarrow> char \<Rightarrow> string" where
  "repr_char q c =
     (if c = CHR 0x5C \<or> c = q then [CHR 0x5C, c]
      else if c = CHR 0x09 then [CHR 0x5C, CHR ''t'']
      else if c = CHR 0x0A then [CHR 0x5C, CHR ''n'']
      else if c = CHR 0x0D then [CHR 0x5C, CHR ''r'']
      else if \<not> printable c then [CHR 0x5C, CHR ''x''] @ hex2 c
      else [c])"

definition repr_str :: "string \<Rightarrow> string" where
  "repr_str s =
     (let q = (if CHR 0x27 \<in> set s \<and> CHR 0x22 \<notin> set s then CHR 0x22 else CHR 0x27)
      in [q] @ concat (map (repr_char q) s) @ [q])"

definition repr_list :: "string list \<Rightarrow> string" where
  "repr_list xs = ''['' @ join '', '' (map repr_str xs) @ '']''"

text \<open>How an f-string prints an optional text: \<^verbatim>\<open>None\<close> prints as its name.\<close>

definition format_opt :: "string option \<Rightarrow> string" where
  "format_opt v = (case v of None \<Rightarrow> ''None'' | Some s \<Rightarrow> s)"

text \<open>The line that \<^verbatim>\<open>_write_log\<close> composes.\<close>

definition log_line :: "datetime \<Rightarrow> bool \<Rightarrow> string option \<Rightarrow> string list \<Rightarrow> string option \<Rightarrow> string" where
  "log_line t success subject rcpts error =
     ''['' @ strftime t @ ''] ''
       @ (if success then ''OK'' else ''FAIL ('' @ format_opt error @ '')'')
       @ '' | Subject='' @ [CHR 0x27] @ format_opt subject @ [CHR 0x27]
       @ '' | To='' @ repr_list rcpts @ [CHR 0x0A]"

text \<open>\<^verbatim>\<open>_write_log(success, subject, recipients, error)\<close>.\<close>

definition write_log ::
  "client \<Rightarrow> bool \<Rightarrow> string option \<Rightarrow> string list \<Rightarrow> string option \<Rightarrow> world \<Rightarrow> (exn + unit) \<times> world" where
  "write_log c success subject rcpts error w =
     (case log_file c of
        None \<Rightarrow> (Inr (), w)
      | Some path \<Rightarrow>
          if path = [] then (Inr (), w)
          else (case makedirs w (dirname path) of
                  Inl e \<Rightarrow> (Inl e, w)
                | Inr w1 \<Rightarrow>
                    (case append_file w1 path (log_line (now w1) success subject rcpts error) of
                       Inl e \<Rightarrow> (Inl e, w1)
                     | Inr w2 \<Rightarrow> (Inr (), w2))))"

text \<open>\<^verbatim>\<open>subprocess.run(cmd, input=..., timeout=...)\<close>: the call is recorded, the world answers.\<close>

definition subprocess_run :: "world \<Rightarrow> string list \<Rightarrow> string \<Rightarrow> int \<Rightarrow> run_result \<times> world" where
  "subprocess_run w cmd input timeout =
     (subprocess w cmd input timeout, w\<lparr>calls := calls w @ [(cmd, input, timeout)]\<rparr>)"

text \<open>
  \<^verbatim>\<open>send(builder, timeout)\<close>. The log is written before the transport error is raised and
  before the normal return, outside any handler of its own, so an exception of
  \<^verbatim>\<open>_write_log\<close> is what the caller sees.
\<close>

definition send ::
  "email_lib \<Rightarrow> client \<Rightarrow> builder \<Rightarrow> int \<Rightarrow> world \<Rightarrow> (exn + unit) \<times> builder \<times> world" where
  "send lib c b timeout w =
     (case build lib b of
        (Inl e, b') \<Rightarrow> (Inl e, b', w)
      | (Inr m, b') \<Rightarrow>
          (let rcpts = recipients b';
               cmd = build_cmd c rcpts;
               raw_bytes = as_bytes lib m
           in case subprocess_run w cmd raw_bytes timeout of
                (RunRaised e, w1) \<Rightarrow>
                  (case write_log c False (msg_get m ''Subject'') rcpts (Some (exn_str e)) w1 of
                     (Inl e', w2) \<Rightarrow> (Inl e', b', w2)
                   | (Inr u, w2) \<Rightarrow> (Inl (MsmtpSendError (exn_str e)), b', w2))
              | (Completed returncode err, w1) \<Rightarrow>
                  if returncode \<noteq> 0
                  then (case write_log c False (msg_get m ''Subject'') rcpts (Some err) w1 of
                          (Inl e', w2) \<Rightarrow> (Inl e', b', w2)
                        | (Inr u, w2) \<Rightarrow> (Inl (MsmtpSendError err), b', w2))
                  else (case write_log c True (msg_get m ''Subject'') rcpts None w1 of
                          (Inl e', w2) \<Rightarrow> (Inl e', b', w2)
                        | (Inr u, w2) \<Rightarrow> (Inr (), b', w2))))"

subsection \<open>Sequences of recipient calls\<close>

text \<open>
  A call of \<^verbatim>\<open>add_to\<close>, \<^verbatim>\<open>add_cc\<close> or \<^verbatim>\<open>add_bcc\<close>, and the addresses that a call
  contributes to each of the three lists.
\<close>

datatype add_call = AddTo string | AddCc string | AddBcc string

fun apply_call :: "add_call \<Rightarrow> builder \<Rightarrow> builder" where
  "apply_call (AddTo e) b = add_to e b"
| "apply_call (AddCc e) b = add_cc e b"
| "apply_call (AddBcc e) b = add_bcc e b"

fun to_of :: "add_call \<Rightarrow> string list" where
  "to_of (AddTo e) = [e]"
| "to_of _ = []"

fun cc_of :: "add_call \<Rightarrow> string list" where
  "cc_of (AddCc e) = [e]"
| "cc_of _ = []"

fun bcc_of :: "add_call \<Rightarrow> string list" where
  "bcc_of (AddBcc e) = [e]"
| "bcc_of _ = []"

subsection \<open>Programs over a builder\<close>

text \<open>
  The calls that a program can make on a builder, and the builder that a call leaves
  behind, whether it returned or raised (a caller may catch the exception and go on). A
  program is a list of calls, each made in the world of its moment, on a new builder.
\<close>

datatype call =
    Set_from_full_name string
  | Add_to string
  | Add_cc string
  | Add_bcc string
  | Load_recipients_from_file string
  | Set_subject string
  | Set_body string string
  | Add_attachment string "string option" "string option"
  | Build

fun perform :: "email_lib \<Rightarrow> world \<Rightarrow> call \<Rightarrow> builder \<Rightarrow> builder" where
  "perform lib w (Set_from_full_name name) b = set_from_full_name name b"
| "perform lib w (Add_to email) b = add_to email b"
| "perform lib w (Add_cc email) b = add_cc email b"
| "perform lib w (Add_bcc email) b = add_bcc email b"
| "perform lib w (Load_recipients_from_file path) b = snd (load_recipients_from_file w path b)"
| "perform lib w (Set_subject subject) b = snd (set_subject lib subject b)"
| "perform lib w (Set_body text subtype) b = snd (set_body text subtype b)"
| "perform lib w (Add_attachment path mime_type filename) b =
     snd (add_attachment w path mime_type filename b)"
| "perform lib w Build b = snd (build lib b)"

definition program :: "email_lib \<Rightarrow> (world \<times> call) list \<Rightarrow> builder" where
  "program lib steps = fold (\<lambda>(w, c). perform lib w c) steps new_builder"

text \<open>The headers that the builder's own methods assign.\<close>

definition own_headers :: "builder \<Rightarrow> bool" where
  "own_headers b =
     list_all (\<lambda>(k, v). k \<in> set [''Subject'', ''From'', ''To'', ''Cc'']) (headers (msg b))"

subsection \<open>The required fields, in the specification's words\<close>

text \<open>
  The three conditions under which the specification lets \<^verbatim>\<open>build()\<close> fail, for
  comparison with the code: no recipient in any of the three lists; no subject, that is
  no Subject header or an empty one (the specification asks for a non-empty subject); no
  body, that is no payload or an empty one and, for a multipart message, no part of type
  \<^verbatim>\<open>text/plain\<close> or \<^verbatim>\<open>text/html\<close>.
\<close>

definition no_recipients :: "builder \<Rightarrow> bool" where
  "no_recipients b = (to b = [] \<and> cc b = [] \<and> bcc b = [])"

definition subject_unset :: "builder \<Rightarrow> bool" where
  "subject_unset b = (case msg_get (msg b) ''Subject'' of None \<Rightarrow> True | Some s \<Rightarrow> s = [])"

definition is_text_part :: "part \<Rightarrow> bool" where
  "is_text_part p =
     (content_type_of (part_content_type p) = ''text/plain''
      \<or> content_type_of (part_content_type p) = ''text/html'')"

definition no_body :: "builder \<Rightarrow> bool" where
  "no_body b =
     (case payload (msg b) of
        NoPayload \<Rightarrow> True
      | Content t d \<Rightarrow> d = []
      | Multipart ps \<Rightarrow> \<not> list_ex is_text_part ps)"

definition is_multipart :: "message \<Rightarrow> bool" where
  "is_multipart m = (case payload m of Multipart ps \<Rightarrow> True | _ \<Rightarrow> False)"

subsection \<open>When the log can be written\<close>

text \<open>
  The log write goes through: no log file is configured, or its path has a directory part
  and the operating system refuses neither that directory nor the file.
\<close>

definition log_writable :: "client \<Rightarrow> world \<Rightarrow> bool" where
  "log_writable c w =
     (case log_file c of
        None \<Rightarrow> True
      | Some path \<Rightarrow>
          path = [] \<or> (dirname path \<noteq> [] \<and> makedirs_error w (dirname path) = None
                        \<and> open_error w path = None))"



subsection \<open>Examples\<close>

text \<open>
  A library instance for the examples. On the plain ASCII values that the examples
  assign, the header registry renders a header as it was assigned; the wire form lists
  the headers and then the body.
\<close>

definition example_wire :: "message \<Rightarrow> string" where
  "example_wire m =
     concat (map (\<lambda>(k, v). k @ '': '' @ v @ [CHR 0x0A]) (headers m)) @ [CHR 0x0A]
       @ (case payload m of
            NoPayload \<Rightarrow> []
          | Content t d \<Rightarrow> d
          | Multipart ps \<Rightarrow> concat (map part_payload ps))"

definition example_lib :: email_lib where
  "example_lib =
     \<lparr>header_factory = (\<lambda>name val. val), header_encode = (\<lambda>name. name), as_bytes = example_wire\<rparr>"

text \<open>
  The builders of the unit tests: an alias, one recipient, a subject and a body; and the
  same with one of the three required fields left out.
\<close>

definition example_builder :: builder where
  "example_builder =
     snd (set_body ''Body'' ''plain''
       (snd (set_subject example_lib ''Subject''
         (add_to ''dest@example.com'' (set_from_full_name ''Test Alias'' new_builder)))))"

definition builder_without_recipients :: builder where
  "builder_without_recipients =
     snd (set_body ''Body'' ''plain'' (snd (set_subject example_lib ''Test'' new_builder)))"

definition builder_without_subject :: builder where
  "builder_without_subject =
     snd (set_body ''Body'' ''plain'' (add_to ''test@example.com'' new_builder))"

definition builder_without_body :: builder where
  "builder_without_body =
     snd (set_subject example_lib ''Test'' (add_to ''test@example.com'' new_builder))"

text \<open>The message that \<^verbatim>\<open>build()\<close> returns for \<open>example_builder\<close>.\<close>

definition example_message :: message where
  "example_message =
     (msg example_builder)\<lparr>headers :=
        [(''Subject'', ''Subject''),
         (''From'', ''Test Alias <u0992244071@gmail.com>''),
         (''To'', ''dest@example.com'')]\<rparr>"

text \<open>A display name with a double quote in it: a, double quote, b.\<close>

definition quoted_alias :: string where
  "quoted_alias = [CHR ''a'', CHR 0x22, CHR ''b'']"

definition quoted_sender :: string where
  "quoted_sender =
     [CHR 0x22, CHR ''a'', CHR 0x5C, CHR 0x22, CHR ''b'', CHR 0x22] @ '' <u0992244071@gmail.com>''"

text \<open>A builder with two To addresses, a Cc and a Bcc address, and the message built from it.\<close>

definition copies_builder :: builder where
  "copies_builder =
     add_bcc ''hidden@x'' (add_cc ''c@x'' (add_to ''b@x'' (add_to ''a@x'' builder_without_recipients)))"

definition copies_message :: message where
  "copies_message =
     (msg copies_builder)\<lparr>headers :=
        [(''Subject'', ''Test''),
         (''From'', ''N150 Home Server Monitoring <u0992244071@gmail.com>''),
         (''To'', ''a@x, b@x''),
         (''Cc'', ''c@x'')]\<rparr>"

text \<open>A builder whose subject has been set once, to A.\<close>

definition subject_builder :: builder where
  "subject_builder = snd (set_subject example_lib ''A'' new_builder)"

text \<open>
  A world for the examples: the two recipients files of the unit tests, an empty object
  and an empty array, and no other file; an external program that behaves as \<open>r\<close> says; a
  file system that refuses nothing.
\<close>

definition example_world :: "run_result \<Rightarrow> world" where
  "example_world r =
     \<lparr>read_json = (\<lambda>path.
        if path = ''object.json'' then Inr (JObj [(''recipients'', JArr [''a@x'', ''b@x''])])
        else if path = ''array.json'' then Inr (JArr [''c@x'', ''d@x''])
        else if path = ''empty_object.json'' then Inr (JObj [])
        else if path = ''empty_array.json'' then Inr (JArr [])
        else Inl (OSError ''[Errno 2] No such file or directory'')),
      isfile = (\<lambda>path. False),
      read_bytes = (\<lambda>path. Inl (OSError ''[Errno 2] No such file or directory'')),
      guess_type = (\<lambda>path. None),
      subprocess = (\<lambda>cmd input timeout. r),
      calls = [],
      now = \<lparr>year = 2025, month = 11, day = 4, hour = 3, minute = 4, second = 5\<rparr>,
      makedirs_error = (\<lambda>d. None),
      open_error = (\<lambda>path. None),
      dirs = {},
      files = (\<lambda>path. None)\<rparr>"

text \<open>
  The client of \<^verbatim>\<open>Example.py\<close>, which logs to a file under \<^verbatim>\<open>/var/log\<close>, and a world in
  which the operating system does not let the program open that file.
\<close>

definition logging_client :: client where
  "logging_client = new_client\<lparr>log_file := Some ''/var/log/msmtp_mail.log''\<rparr>"

definition denied_world :: "run_result \<Rightarrow> world" where
  "denied_world r =
     (example_world r)\<lparr>open_error := (\<lambda>path.
        if path = ''/var/log/msmtp_mail.log''
        then Some (OSError ''[Errno 13] Permission denied'')
        else None)\<rparr>"

section \<open>Properties\<close>

subsection \<open>Recipient flattening\<close>

lemma set_first_seen: "set (first_seen xs) = set xs"
  by (induction xs rule: first_seen.induct) auto

lemma distinct_first_seen: "distinct (first_seen xs)"
  by (induction xs rule: first_seen.induct) (auto simp: set_first_seen)

text \<open>
  The dictionary built so far is a prefix of the result; what follows are the first
  occurrences of the keys that it does not hold yet.
\<close>

lemma foldl_fromkeys_step:
  "foldl fromkeys_step d xs = d @ first_seen (filter (\<lambda>x. x \<notin> set d) xs)"
proof (induction xs arbitrary: d)
  case Nil
  then show ?case by simp
next
  case (Cons x xs)
  show ?case
  proof (cases "x \<in> set d")
    case True
    then show ?thesis using Cons.IH [of d] by (simp add: fromkeys_step_def)
  next
    case False
    have "filter (\<lambda>y. y \<noteq> x) (filter (\<lambda>y. y \<notin> set d) xs) = filter (\<lambda>y. y \<notin> set (d @ [x])) xs"
      by (induction xs) auto
    then show ?thesis using False Cons.IH [of "d @ [x]"] by (simp add: fromkeys_step_def)
  qed
qed

lemma dict_fromkeys_first_seen: "dict_fromkeys xs = first_seen xs"
  by (simp add: dict_fromkeys_def foldl_fromkeys_step)

lemma fold_apply_call:
  "to (fold apply_call cs b) = to b @ concat (map to_of cs) \<and>
   cc (fold apply_call cs b) = cc b @ concat (map cc_of cs) \<and>
   bcc (fold apply_call cs b) = bcc b @ concat (map bcc_of cs)"
proof (induction cs arbitrary: b)
  case Nil
  then show ?case by simp
next
  case (Cons c cs)
  then show ?case by (cases c) (simp_all add: add_to_def add_cc_def add_bcc_def)
qed

text \<open>
  C3. For every builder, and so after every sequence of \<^verbatim>\<open>add_to\<close>, \<^verbatim>\<open>add_cc\<close> and
  \<^verbatim>\<open>add_bcc\<close> calls, duplicates allowed, \<^verbatim>\<open>recipients()\<close> is the deduplicated union of
  the To, Cc and Bcc lists in first-seen order: it has no duplicates, holds exactly the
  addresses of the three lists, and keeps the first occurrence of each. With
  To = [to@x], Cc = [cc@x], Bcc = [bcc@x] it is exactly [to@x, cc@x, bcc@x], of length 3.
\<close>

theorem recipients_first_seen:
  "recipients b = first_seen (to b @ cc b @ bcc b)
   \<and> distinct (recipients b)
   \<and> set (recipients b) = set (to b) \<union> set (cc b) \<union> set (bcc b)
   \<and> recipients (fold apply_call cs new_builder)
       = first_seen (concat (map to_of cs) @ concat (map cc_of cs) @ concat (map bcc_of cs))
   \<and> recipients (add_bcc ''bcc@x'' (add_cc ''cc@x'' (add_to ''to@x'' new_builder)))
       = [''to@x'', ''cc@x'', ''bcc@x'']
   \<and> length (recipients (add_bcc ''bcc@x'' (add_cc ''cc@x'' (add_to ''to@x'' new_builder)))) = 3"
proof -
  have r: "\<And>b. recipients b = first_seen (to b @ cc b @ bcc b)"
    by (simp add: recipients_def dict_fromkeys_first_seen)
  have ex: "recipients (add_bcc ''bcc@x'' (add_cc ''cc@x'' (add_to ''to@x'' new_builder)))
       = [''to@x'', ''cc@x'', ''bcc@x'']"
    by (simp add: r add_to_def add_cc_def add_bcc_def new_builder_def)
  have sq: "recipients (fold apply_call cs new_builder)
       = first_seen (concat (map to_of cs) @ concat (map cc_of cs) @ concat (map bcc_of cs))"
    by (simp add: r fold_apply_call new_builder_def)
  show ?thesis
    using ex sq by (simp add: r distinct_first_seen set_first_seen Un_assoc)
qed

subsection \<open>Validation in build()\<close>

lemma lower_Subject: "lower ''Subject'' = ''subject''"
  by (simp add: lower_def lower_char_def)
lemma lower_From: "lower ''From'' = ''from''"
  by (simp add: lower_def lower_char_def)
lemma lower_To: "lower ''To'' = ''to''"
  by (simp add: lower_def lower_char_def)
lemma lower_Cc: "lower ''Cc'' = ''cc''"
  by (simp add: lower_def lower_char_def)
lemma lower_Bcc: "lower ''Bcc'' = ''bcc''"
  by (simp add: lower_def lower_char_def)

lemma setitem_cases:
  "setitem lib m name val = Inl e \<Longrightarrow> \<exists>s. e = ValueError s"
  by (auto simp: setitem_def append_header_def header_store_parse_def split: option.splits if_splits sum.splits)

lemma formataddr_cases:
  "formataddr lib n a = Inl e \<Longrightarrow> \<exists>s. e = UnicodeEncodeError s"
  by (auto simp: formataddr_def Let_def split: if_splits)

lemma text_parts_empty: "(text_parts ps = []) = (\<not> list_ex is_text_part ps)"
  by (induction ps) (auto simp: text_parts_def is_text_part_def)

lemma check_body_iff:
  "check_body (msg b) =
     (if no_body b
      then Some (EmailBuildError (if is_multipart (msg b) then ''No body set in multipart message.'' else ''No body set.''))
      else None)"
  by (auto simp: check_body_def no_body_def is_multipart_def text_parts_empty split: payload.splits)

lemma build_checked:
  "\<not> no_recipients b \<Longrightarrow> \<not> subject_unset b \<Longrightarrow> \<not> no_body b \<Longrightarrow>
   \<not> (\<exists>e. fst (build lib b) = Inl (EmailBuildError e))"
  unfolding build_def
  by (auto simp: no_recipients_def subject_unset_def check_body_iff
      split: sum.splits if_splits option.splits dest: setitem_cases formataddr_cases)

text \<open>
  C2. For every builder state, \<^verbatim>\<open>build()\<close> fails with a build error exactly when a
  required field is missing: To, Cc and Bcc are all empty, or the subject is unset (no
  Subject header, or an empty one), or no body is present (for a multipart message, no
  \<^verbatim>\<open>text/plain\<close> or \<^verbatim>\<open>text/html\<close> part). Each condition alone, the other two fields
  being valid, makes it fail, the error names the missing field, and the builder is left
  as it was.
\<close>

theorem build_error_iff:
  "((\<exists>e. fst (build lib b) = Inl (EmailBuildError e))
      = (no_recipients b \<or> subject_unset b \<or> no_body b))
   \<and> (no_recipients b \<longrightarrow>
        build lib b = (Inl (EmailBuildError ''No recipients set (add_to/add_cc/add_bcc).''), b))
   \<and> (\<not> no_recipients b \<and> subject_unset b \<longrightarrow>
        build lib b = (Inl (EmailBuildError ''No subject set.''), b))
   \<and> (\<not> no_recipients b \<and> \<not> subject_unset b \<and> no_body b \<longrightarrow>
        build lib b =
          (Inl (EmailBuildError (if is_multipart (msg b) then ''No body set in multipart message.''
                                 else ''No body set.'')), b))"
proof -
  have r: "no_recipients b \<Longrightarrow>
      build lib b = (Inl (EmailBuildError ''No recipients set (add_to/add_cc/add_bcc).''), b)"
    by (simp add: build_def no_recipients_def)
  have s: "\<not> no_recipients b \<Longrightarrow> subject_unset b \<Longrightarrow>
      build lib b = (Inl (EmailBuildError ''No subject set.''), b)"
    by (auto simp: build_def no_recipients_def subject_unset_def split: option.splits)
  have y: "\<not> no_recipients b \<Longrightarrow> \<not> subject_unset b \<Longrightarrow> no_body b \<Longrightarrow>
      build lib b =
          (Inl (EmailBuildError (if is_multipart (msg b) then ''No body set in multipart message.''
                                 else ''No body set.'')), b)"
    by (auto simp: build_def no_recipients_def subject_unset_def check_body_iff split: option.splits)
  have "(\<exists>e. fst (build lib b) = Inl (EmailBuildError e))
      = (no_recipients b \<or> subject_unset b \<or> no_body b)"
  proof
    assume "\<exists>e. fst (build lib b) = Inl (EmailBuildError e)"
    then show "no_recipients b \<or> subject_unset b \<or> no_body b"
      using build_checked [of b lib] by blast
  next
    assume "no_recipients b \<or> subject_unset b \<or> no_body b"
    then show "\<exists>e. fst (build lib b) = Inl (EmailBuildError e)"
      using r s y by (cases "no_recipients b"; cases "subject_unset b") auto
  qed
  then show ?thesis using r s y by blast
qed


text \<open>Unfolding the operations on concrete builders.\<close>

lemmas model_defs =
  new_builder_def set_from_full_name_def add_to_def add_cc_def add_bcc_def
  set_subject_def set_body_def setitem_def append_header_def header_store_parse_def
  header_max_count_def unique_headers_def count_headers_def msg_get_def
  get_content_maintype_def get_content_type_def content_type_of_def strip_def is_space_def
  body_bytes_def str_linebreak_def bytes_linebreak_def lower_def lower_char_def
  example_lib_def show_nat.simps digit_def MSMTP_DEFAULT_FULLNAME_def

lemma example_builder_eq:
  "example_builder =
     \<lparr>msg = \<lparr>headers = [(''Subject'', ''Subject'')],
             payload = Content (''text/plain; charset='' @ [CHR 0x22] @ ''utf-8'' @ [CHR 0x22])
                               (''Body'' @ [CHR 0x0A])\<rparr>,
      from_full_name = ''Test Alias'', to = [''dest@example.com''], cc = [], bcc = []\<rparr>"
  by (simp add: example_builder_def model_defs)

lemma builder_without_recipients_eq:
  "builder_without_recipients =
     \<lparr>msg = \<lparr>headers = [(''Subject'', ''Test'')],
             payload = Content (''text/plain; charset='' @ [CHR 0x22] @ ''utf-8'' @ [CHR 0x22])
                               (''Body'' @ [CHR 0x0A])\<rparr>,
      from_full_name = MSMTP_DEFAULT_FULLNAME, to = [], cc = [], bcc = []\<rparr>"
  by (simp add: builder_without_recipients_def model_defs)

lemma builder_without_subject_eq:
  "builder_without_subject =
     \<lparr>msg = \<lparr>headers = [],
             payload = Content (''text/plain; charset='' @ [CHR 0x22] @ ''utf-8'' @ [CHR 0x22])
                               (''Body'' @ [CHR 0x0A])\<rparr>,
      from_full_name = MSMTP_DEFAULT_FULLNAME, to = [''test@example.com''], cc = [], bcc = []\<rparr>"
  by (simp add: builder_without_subject_def model_defs)

lemma builder_without_body_eq:
  "builder_without_body =
     \<lparr>msg = \<lparr>headers = [(''Subject'', ''Test'')], payload = NoPayload\<rparr>,
      from_full_name = MSMTP_DEFAULT_FULLNAME, to = [''test@example.com''], cc = [], bcc = []\<rparr>"
  by (simp add: builder_without_body_def model_defs)

theorem build_error_iff_witness:
  "build example_lib builder_without_recipients
     = (Inl (EmailBuildError ''No recipients set (add_to/add_cc/add_bcc).''), builder_without_recipients)
   \<and> build example_lib builder_without_subject
     = (Inl (EmailBuildError ''No subject set.''), builder_without_subject)
   \<and> build example_lib builder_without_body
     = (Inl (EmailBuildError ''No body set.''), builder_without_body)
   \<and> (\<nexists>e. fst (build example_lib example_builder) = Inl (EmailBuildError e))"
proof -
  have 1: "no_recipients builder_without_recipients"
    by (simp add: builder_without_recipients_eq no_recipients_def)
  have 2: "\<not> no_recipients builder_without_subject \<and> subject_unset builder_without_subject"
    by (simp add: builder_without_subject_eq no_recipients_def subject_unset_def msg_get_def)
  have 3: "\<not> no_recipients builder_without_body \<and> \<not> subject_unset builder_without_body
      \<and> no_body builder_without_body \<and> \<not> is_multipart (msg builder_without_body)"
    by (simp add: builder_without_body_eq no_recipients_def subject_unset_def msg_get_def
        no_body_def is_multipart_def lower_def lower_char_def)
  have 4: "\<not> no_recipients example_builder \<and> \<not> subject_unset example_builder
      \<and> \<not> no_body example_builder"
    by (simp add: example_builder_eq no_recipients_def subject_unset_def msg_get_def
        no_body_def lower_def lower_char_def)
  show ?thesis
    using 1 2 3 4
      build_error_iff [of example_lib builder_without_recipients]
      build_error_iff [of example_lib builder_without_subject]
      build_error_iff [of example_lib builder_without_body]
      build_error_iff [of example_lib example_builder]
    by simp
qed

subsection \<open>Headers written by build()\<close>

lemma contains_self_prefix: "contains n (n @ ys)"
proof (cases "n @ ys")
  case Nil
  then show ?thesis by simp
next
  case (Cons a l)
  then have "take (length n) (a # l) = n"
    by (metis append_eq_conv_conj)
  then show ?thesis using Cons by simp
qed

lemma contains_append: "contains n ys \<Longrightarrow> contains n (xs @ ys)"
proof (induction xs)
  case Nil
  then show ?case by simp
next
  case (Cons x xs)
  then show ?case by simp
qed

lemma contains_middle: "contains n (xs @ n @ ys)"
  by (rule contains_append) (rule contains_self_prefix)

lemma count_headers_get: "(count_headers m name = 0) = (msg_get m name = None)"
proof -
  have "\<And>hs. (filter (\<lambda>(k, v). lower k = lower name) hs = [])
      = (map_of (map (\<lambda>(k, v). (lower k, v)) hs) (lower name) = None)"
    by (induct_tac hs) (auto split: prod.splits)
  then show ?thesis by (simp add: count_headers_def msg_get_def)
qed

lemma msg_get_append:
  "msg_get (m\<lparr>headers := headers m @ [(k, v)]\<rparr>) name =
     (case msg_get m name of
        Some x \<Rightarrow> Some x
      | None \<Rightarrow> if lower k = lower name then Some v else None)"
  by (simp add: msg_get_def map_add_def split: option.splits)

lemma count_headers_append:
  "count_headers (m\<lparr>headers := headers m @ [(k, v)]\<rparr>) name =
     count_headers m name + (if lower k = lower name then 1 else 0)"
  by (simp add: count_headers_def)

lemma setitem_Inr:
  assumes "setitem lib m name val = Inr m'"
  shows "m' = m\<lparr>headers := headers m @ [(name, header_factory lib name val)]\<rparr>"
    and "lower name \<in> set unique_headers \<Longrightarrow> msg_get m name = None"
  using assms
  by (auto simp: setitem_def append_header_def header_store_parse_def header_max_count_def
      count_headers_get [symmetric] split: if_splits)

lemma unique_From: "lower ''From'' \<in> set unique_headers"
  by (simp add: lower_From unique_headers_def)
lemma unique_To: "lower ''To'' \<in> set unique_headers"
  by (simp add: lower_To unique_headers_def)
lemma unique_Cc: "lower ''Cc'' \<in> set unique_headers"
  by (simp add: lower_Cc unique_headers_def)
lemma unique_Subject: "lower ''Subject'' \<in> set unique_headers"
  by (simp add: lower_Subject unique_headers_def)

lemma setitem_present:
  "lower name \<in> set unique_headers \<Longrightarrow> msg_get m name \<noteq> None \<Longrightarrow>
   setitem lib m name val =
     Inl (ValueError (''There may be at most 1 '' @ name @ '' headers in a message''))"
  by (simp add: setitem_def header_max_count_def count_headers_get [symmetric] show_nat.simps
      digit_def)

text \<open>What a successful \<^verbatim>\<open>build()\<close> has done.\<close>

lemma build_Inr:
  assumes "build lib b = (Inr m, b')"
  shows "\<exists>sender m1 m2.
      formataddr lib (from_full_name b) MSMTP_FROM_EMAIL = Inr sender
      \<and> setitem lib (msg b) ''From'' sender = Inr m1
      \<and> (if to b \<noteq> [] then setitem lib m1 ''To'' (join '', '' (to b)) else Inr m1) = Inr m2
      \<and> (if cc b \<noteq> [] then setitem lib m2 ''Cc'' (join '', '' (cc b)) else Inr m2) = Inr m
      \<and> b' = b\<lparr>msg := m\<rparr>
      \<and> \<not> no_recipients b \<and> \<not> subject_unset b \<and> \<not> no_body b"
  using assms unfolding build_def
  by (auto simp: no_recipients_def subject_unset_def check_body_iff
      split: if_splits option.splits sum.splits)


lemma escape_plain:
  "CHR 0x22 \<notin> set n \<Longrightarrow> CHR 0x5C \<notin> set n \<Longrightarrow> concat (map escape_char n) = n"
  by (induction n) (auto simp: escape_char_def)

lemma contains_nil: "contains [] s"
  by (cases s) auto

lemma formataddr_sender:
  assumes "formataddr lib n MSMTP_FROM_EMAIL = Inr s"
  shows "contains MSMTP_FROM_EMAIL s"
    and "is_ascii n \<Longrightarrow> CHR 0x22 \<notin> set n \<Longrightarrow> CHR 0x5C \<notin> set n \<Longrightarrow> contains n s"
proof -
  show "contains MSMTP_FROM_EMAIL s"
  proof (cases "n = []")
    case True
    then have "s = MSMTP_FROM_EMAIL @ []"
      using assms by (simp add: formataddr_def split: if_splits)
    then show ?thesis by (simp only: contains_self_prefix)
  next
    case False
    then obtain p where "s = p @ MSMTP_FROM_EMAIL @ ''>''"
      using assms by (auto simp: formataddr_def Let_def split: if_splits)
    then show ?thesis by (simp only: contains_middle)
  qed
next
  assume a: "is_ascii n" "CHR 0x22 \<notin> set n" "CHR 0x5C \<notin> set n"
  show "contains n s"
  proof (cases "n = []")
    case True
    then show ?thesis by (simp add: contains_nil)
  next
    case False
    define q where "q = (if list_ex (\<lambda>c. c \<in> set specials) n then [CHR 0x22] else [])"
    have "s = q @ n @ (q @ '' <'' @ MSMTP_FROM_EMAIL @ ''>'')"
      using assms a False by (simp add: formataddr_def Let_def escape_plain q_def split: if_splits)
    then show ?thesis by (simp only: contains_middle)
  qed
qed

lemma formataddr_written:
  assumes "formataddr lib n MSMTP_FROM_EMAIL = Inr s" and "n \<noteq> []"
  shows "contains (if is_ascii n then concat (map escape_char n) else header_encode lib n) s"
proof (cases "is_ascii n")
  case True
  define q where "q = (if list_ex (\<lambda>c. c \<in> set specials) n then [CHR 0x22] else [])"
  have "s = q @ concat (map escape_char n) @ (q @ '' <'' @ MSMTP_FROM_EMAIL @ ''>'')"
    using assms True by (simp add: formataddr_def Let_def q_def split: if_splits)
  then show ?thesis using True by (simp only: contains_middle if_True)
next
  case False
  have "s = [] @ header_encode lib n @ ('' <'' @ MSMTP_FROM_EMAIL @ ''>'')"
    using assms False by (simp add: formataddr_def split: if_splits)
  then show ?thesis using False by (simp only: contains_middle if_False)
qed

lemma build_Inr_headers:
  assumes "build lib b = (Inr m, b')"
  shows "\<exists>sender.
      formataddr lib (from_full_name b) MSMTP_FROM_EMAIL = Inr sender
      \<and> headers m = headers (msg b) @ [(''From'', header_factory lib ''From'' sender)]
           @ (if to b = [] then [] else [(''To'', header_factory lib ''To'' (join '', '' (to b)))])
           @ (if cc b = [] then [] else [(''Cc'', header_factory lib ''Cc'' (join '', '' (cc b)))])
      \<and> payload m = payload (msg b)
      \<and> b' = b\<lparr>msg := m\<rparr>
      \<and> msg_get (msg b) ''From'' = None
      \<and> (to b \<noteq> [] \<longrightarrow> msg_get (msg b) ''To'' = None)
      \<and> (cc b \<noteq> [] \<longrightarrow> msg_get (msg b) ''Cc'' = None)"
proof -
  from build_Inr [OF assms] obtain sender m1 m2 where
    f: "formataddr lib (from_full_name b) MSMTP_FROM_EMAIL = Inr sender" and
    s1: "setitem lib (msg b) ''From'' sender = Inr m1" and
    s2: "(if to b \<noteq> [] then setitem lib m1 ''To'' (join '', '' (to b)) else Inr m1) = Inr m2" and
    s3: "(if cc b \<noteq> [] then setitem lib m2 ''Cc'' (join '', '' (cc b)) else Inr m2) = Inr m" and
    b': "b' = b\<lparr>msg := m\<rparr>"
    by blast
  note e1 = setitem_Inr [OF s1]
  have m1: "m1 = (msg b)\<lparr>headers := headers (msg b) @ [(''From'', header_factory lib ''From'' sender)]\<rparr>"
    by (rule e1(1))
  have g1: "msg_get (msg b) ''From'' = None"
    by (rule e1(2)) (rule unique_From)
  have m2: "headers m2 = headers m1
        @ (if to b = [] then [] else [(''To'', header_factory lib ''To'' (join '', '' (to b)))])
      \<and> payload m2 = payload m1 \<and> (to b \<noteq> [] \<longrightarrow> msg_get m1 ''To'' = None)"
  proof (cases "to b = []")
    case True
    then show ?thesis using s2 by simp
  next
    case False
    then have "setitem lib m1 ''To'' (join '', '' (to b)) = Inr m2" using s2 by simp
    from setitem_Inr [OF this] unique_To False show ?thesis by simp
  qed
  have m3: "headers m = headers m2
        @ (if cc b = [] then [] else [(''Cc'', header_factory lib ''Cc'' (join '', '' (cc b)))])
      \<and> payload m = payload m2 \<and> (cc b \<noteq> [] \<longrightarrow> msg_get m2 ''Cc'' = None)"
  proof (cases "cc b = []")
    case True
    then show ?thesis using s3 by simp
  next
    case False
    then have "setitem lib m2 ''Cc'' (join '', '' (cc b)) = Inr m" using s3 by simp
    from setitem_Inr [OF this] unique_Cc False show ?thesis by simp
  qed
  have t: "to b \<noteq> [] \<longrightarrow> msg_get (msg b) ''To'' = None"
    using m2 by (auto simp: m1 msg_get_append split: option.splits)
  have "cc b \<noteq> [] \<longrightarrow> msg_get m1 ''Cc'' = None"
    using m3 m2 by (auto simp: msg_get_def map_add_def split: option.splits if_splits)
  then have c: "cc b \<noteq> [] \<longrightarrow> msg_get (msg b) ''Cc'' = None"
    by (auto simp: m1 msg_get_append split: option.splits)
  show ?thesis
    using f b' g1 t c m2 m3 by (simp add: m1)
qed

lemma msg_get_headers_append:
  "headers m = headers m0 @ hs \<Longrightarrow>
   msg_get m name =
     (case msg_get m0 name of
        Some x \<Rightarrow> Some x
      | None \<Rightarrow> map_of (map (\<lambda>(k, v). (lower k, v)) hs) (lower name))"
  by (simp add: msg_get_def map_add_def split: option.splits)

text \<open>
  C4, as amended. In every builder state, a successful \<^verbatim>\<open>build()\<close> assigns to the From
  header the value \<^verbatim>\<open>formataddr((display name, fixed address))\<close>, and the From header
  read back is the header registry's rendering of that value. The assigned value always
  contains the fixed sender address; it contains the display name as it was given
  whenever the name is ASCII text with no double quote and no backslash in it. Any other
  name is in the value in its written form: an ASCII name with a backslash before each
  double quote and each backslash (so that the name itself need not be a substring of the
  header), a name that is not ASCII as its encoded word. The address is the module's
  constant whatever the builder state, so no builder operation overrides it.
\<close>

theorem build_from_header:
  assumes "build lib b = (Inr m, b')"
  shows "\<exists>sender.
      formataddr lib (from_full_name b) MSMTP_FROM_EMAIL = Inr sender
      \<and> msg_get m ''From'' = Some (header_factory lib ''From'' sender)
      \<and> contains MSMTP_FROM_EMAIL sender
      \<and> (is_ascii (from_full_name b) \<and> CHR 0x22 \<notin> set (from_full_name b)
            \<and> CHR 0x5C \<notin> set (from_full_name b)
          \<longrightarrow> contains (from_full_name b) sender)
      \<and> (from_full_name b \<noteq> [] \<longrightarrow>
            contains (if is_ascii (from_full_name b)
                      then concat (map escape_char (from_full_name b))
                      else header_encode lib (from_full_name b)) sender)"
proof -
  from build_Inr_headers [OF assms] obtain sender where
    f: "formataddr lib (from_full_name b) MSMTP_FROM_EMAIL = Inr sender" and
    h: "headers m = headers (msg b) @ [(''From'', header_factory lib ''From'' sender)]
           @ (if to b = [] then [] else [(''To'', header_factory lib ''To'' (join '', '' (to b)))])
           @ (if cc b = [] then [] else [(''Cc'', header_factory lib ''Cc'' (join '', '' (cc b)))])" and
    g: "msg_get (msg b) ''From'' = None"
    by blast
  have "msg_get m ''From'' = Some (header_factory lib ''From'' sender)"
    by (simp add: msg_get_headers_append [OF h] g lower_From)
  then show ?thesis
    using f formataddr_sender [OF f] formataddr_written [OF f] by blast
qed

text \<open>Unfolding \<^verbatim>\<open>build()\<close> on concrete builders.\<close>

lemmas build_defs =
  build_def check_body_def text_parts_def formataddr_def is_ascii_def specials_def
  escape_char_def MSMTP_FROM_EMAIL_def Let_def

lemma build_example_builder:
  "build example_lib example_builder = (Inr example_message, example_builder\<lparr>msg := example_message\<rparr>)"
  by (simp add: example_message_def example_builder_eq build_defs model_defs)

theorem build_from_header_witness:
  "build example_lib example_builder = (Inr example_message, example_builder\<lparr>msg := example_message\<rparr>)
   \<and> from_full_name example_builder = ''Test Alias''
   \<and> msg_get example_message ''From'' = Some ''Test Alias <u0992244071@gmail.com>''
   \<and> contains MSMTP_FROM_EMAIL ''Test Alias <u0992244071@gmail.com>''
   \<and> contains ''Test Alias'' ''Test Alias <u0992244071@gmail.com>''"
proof -
  have n: "from_full_name example_builder = ''Test Alias''"
    by (simp add: example_builder_eq)
  have f: "formataddr example_lib ''Test Alias'' MSMTP_FROM_EMAIL = Inr ''Test Alias <u0992244071@gmail.com>''"
    by (simp add: build_defs)
  have a: "is_ascii ''Test Alias'' \<and> CHR 0x22 \<notin> set ''Test Alias'' \<and> CHR 0x5C \<notin> set ''Test Alias''"
    by (simp add: is_ascii_def)
  show ?thesis
    using build_from_header [OF build_example_builder] n f a build_example_builder
    by (auto simp: example_lib_def)
qed

text \<open>
  The display name a"b: the build succeeds, and the From header holds the name in its
  escaped form only.
\<close>

theorem from_header_counterexample:
  "quoted_alias \<noteq> []
   \<and> build example_lib (set_from_full_name quoted_alias example_builder)
       = (Inr (example_message\<lparr>headers :=
                 [(''Subject'', ''Subject''), (''From'', quoted_sender), (''To'', ''dest@example.com'')]\<rparr>),
          (set_from_full_name quoted_alias example_builder)\<lparr>msg := example_message\<lparr>headers :=
                 [(''Subject'', ''Subject''), (''From'', quoted_sender), (''To'', ''dest@example.com'')]\<rparr>\<rparr>)
   \<and> msg_get (example_message\<lparr>headers :=
                 [(''Subject'', ''Subject''), (''From'', quoted_sender), (''To'', ''dest@example.com'')]\<rparr>)
         ''From'' = Some quoted_sender
   \<and> \<not> contains quoted_alias quoted_sender"
  by (simp add: quoted_alias_def quoted_sender_def example_message_def example_builder_eq
      build_defs model_defs)

subsection \<open>The headers of a program's builder\<close>

lemma own_names_no_bcc:
  "list_all (\<lambda>(k, v). k \<in> set [''Subject'', ''From'', ''To'', ''Cc'']) hs \<Longrightarrow>
   map_of (map (\<lambda>(k, v). (lower k, v)) hs) ''bcc'' = None"
  by (induction hs) (auto simp: lower_Subject lower_From lower_To lower_Cc)

lemma own_headers_no_Bcc: "own_headers b \<Longrightarrow> msg_get (msg b) ''Bcc'' = None"
  by (simp add: own_headers_def msg_get_def lower_Bcc own_names_no_bcc)

lemma own_headers_setitem:
  "list_all (\<lambda>(k, v). k \<in> set [''Subject'', ''From'', ''To'', ''Cc'']) (headers m) \<Longrightarrow>
   name \<in> set [''Subject'', ''From'', ''To'', ''Cc''] \<Longrightarrow> setitem lib m name val = Inr m' \<Longrightarrow>
   list_all (\<lambda>(k, v). k \<in> set [''Subject'', ''From'', ''To'', ''Cc'']) (headers m')"
  by (auto simp: setitem_def append_header_def header_store_parse_def split: option.splits if_splits)

lemma own_headers_build: "own_headers b \<Longrightarrow> own_headers (snd (build lib b))"
  unfolding build_def own_headers_def
  by (auto split: sum.splits option.splits if_splits dest!: own_headers_setitem [rotated 2])

lemma fold_add_to_msg: "msg (fold add_to xs b) = msg b"
  by (induction xs arbitrary: b) (simp_all add: add_to_def)

lemma own_headers_load: "own_headers b \<Longrightarrow> own_headers (snd (load_recipients_from_file w path b))"
  by (auto simp: own_headers_def load_recipients_from_file_def try_load_def fold_add_to_msg
      split: sum.splits prod.splits if_splits)

lemma own_headers_attach:
  "own_headers b \<Longrightarrow> own_headers (snd (add_attachment w path mt fn b))"
proof -
  have a: "\<And>m data ma su f. headers (snd (attach_part m data ma su f)) = headers m"
    by (simp add: attach_part_def split: payload.splits)
  have m: "\<And>m m1. make_mixed m = Inr m1 \<Longrightarrow> headers m1 = headers m"
    by (auto simp: make_mixed_def split: payload.splits)
  have "\<And>m data ma su f. headers (snd (msg_add_attachment m data ma su f)) = headers m"
    using a m by (simp add: msg_add_attachment_def split: sum.splits)
  then have "headers (msg (snd (add_attachment w path mt fn b))) = headers (msg b)"
    by (simp add: add_attachment_def Let_def split: sum.splits prod.splits)
      (metis snd_conv)
  then show "own_headers b \<Longrightarrow> own_headers (snd (add_attachment w path mt fn b))"
    by (simp add: own_headers_def)
qed

lemma own_headers_perform: "own_headers b \<Longrightarrow> own_headers (perform lib w c b)"
proof (cases c)
  case (Set_subject s)
  assume "own_headers b"
  then show ?thesis
    using Set_subject own_headers_setitem [of "msg b" "''Subject''" lib s]
    by (auto simp: own_headers_def set_subject_def split: sum.splits)
next
  case (Set_body t s)
  assume "own_headers b"
  then show ?thesis using Set_body by (auto simp: own_headers_def set_body_def)
qed (simp_all add: own_headers_build own_headers_load own_headers_attach,
     simp_all add: own_headers_def set_from_full_name_def add_to_def add_cc_def add_bcc_def)

lemma own_headers_fold:
  "own_headers b \<Longrightarrow> own_headers (fold (\<lambda>(w, c). perform lib w c) steps b)"
  by (induction steps arbitrary: b) (auto simp: own_headers_perform)

lemma own_headers_program: "own_headers (program lib steps)"
  unfolding program_def by (rule own_headers_fold) (simp add: own_headers_def new_builder_def)


text \<open>
  C6. A successful \<^verbatim>\<open>build()\<close> appends to the headers of the message the From header,
  then the To header, assigned the To list joined by a comma and a space, then the Cc
  header, assigned the Cc list joined the same way, each of the two only when its list is
  not empty, and nothing else: it sets no Bcc header, in any builder state that passes
  the validation. So the message built from a builder that a program has reached from a
  new builder has no Bcc header at all, while every Bcc address is in the
  \<^verbatim>\<open>recipients()\<close> delivery list.
\<close>

theorem build_recipient_headers:
  assumes "build lib b = (Inr m, b')"
  shows "(\<exists>sender.
        headers m = headers (msg b) @ [(''From'', header_factory lib ''From'' sender)]
           @ (if to b = [] then [] else [(''To'', header_factory lib ''To'' (join '', '' (to b)))])
           @ (if cc b = [] then [] else [(''Cc'', header_factory lib ''Cc'' (join '', '' (cc b)))]))
     \<and> msg_get m ''To'' =
         (if to b = [] then msg_get (msg b) ''To''
          else Some (header_factory lib ''To'' (join '', '' (to b))))
     \<and> msg_get m ''Cc'' =
         (if cc b = [] then msg_get (msg b) ''Cc''
          else Some (header_factory lib ''Cc'' (join '', '' (cc b))))
     \<and> msg_get m ''Bcc'' = msg_get (msg b) ''Bcc''
     \<and> (b = program lib steps \<longrightarrow> msg_get m ''Bcc'' = None)
     \<and> set (bcc b) \<subseteq> set (recipients b')"
proof -
  from build_Inr_headers [OF assms] obtain sender where
    h: "headers m = headers (msg b) @ [(''From'', header_factory lib ''From'' sender)]
           @ (if to b = [] then [] else [(''To'', header_factory lib ''To'' (join '', '' (to b)))])
           @ (if cc b = [] then [] else [(''Cc'', header_factory lib ''Cc'' (join '', '' (cc b)))])" and
    b': "b' = b\<lparr>msg := m\<rparr>" and
    t: "to b \<noteq> [] \<longrightarrow> msg_get (msg b) ''To'' = None" and
    c: "cc b \<noteq> [] \<longrightarrow> msg_get (msg b) ''Cc'' = None"
    by blast
  have 1: "msg_get m ''To'' =
         (if to b = [] then msg_get (msg b) ''To''
          else Some (header_factory lib ''To'' (join '', '' (to b))))"
    using t by (simp add: msg_get_headers_append [OF h] lower_From lower_To lower_Cc
        split: option.splits)
  have 2: "msg_get m ''Cc'' =
         (if cc b = [] then msg_get (msg b) ''Cc''
          else Some (header_factory lib ''Cc'' (join '', '' (cc b))))"
    using c by (simp add: msg_get_headers_append [OF h] lower_From lower_To lower_Cc
        split: option.splits)
  have 3: "msg_get m ''Bcc'' = msg_get (msg b) ''Bcc''"
    by (simp add: msg_get_headers_append [OF h] lower_From lower_To lower_Cc lower_Bcc
        split: option.splits)
  have 4: "b = program lib steps \<longrightarrow> msg_get m ''Bcc'' = None"
    using 3 own_headers_no_Bcc [OF own_headers_program, of lib steps] by simp
  have 5: "set (bcc b) \<subseteq> set (recipients b')"
    by (auto simp: b' recipients_def dict_fromkeys_first_seen set_first_seen)
  show ?thesis using h 1 2 3 4 5 by blast
qed

lemma copies_builder_eq:
  "copies_builder =
     \<lparr>msg = \<lparr>headers = [(''Subject'', ''Test'')],
             payload = Content (''text/plain; charset='' @ [CHR 0x22] @ ''utf-8'' @ [CHR 0x22])
                               (''Body'' @ [CHR 0x0A])\<rparr>,
      from_full_name = MSMTP_DEFAULT_FULLNAME, to = [''a@x'', ''b@x''], cc = [''c@x''],
      bcc = [''hidden@x'']\<rparr>"
  by (simp add: copies_builder_def builder_without_recipients_eq add_to_def add_cc_def add_bcc_def)

lemma build_copies_builder:
  "build example_lib copies_builder = (Inr copies_message, copies_builder\<lparr>msg := copies_message\<rparr>)"
  by (simp add: copies_message_def copies_builder_eq build_defs model_defs)

lemma copies_builder_program:
  "copies_builder =
     program example_lib
       [(example_world (Completed 0 []), Set_subject ''Test''),
        (example_world (Completed 0 []), Set_body ''Body'' ''plain''),
        (example_world (Completed 0 []), Add_to ''a@x''),
        (example_world (Completed 0 []), Add_to ''b@x''),
        (example_world (Completed 0 []), Add_cc ''c@x''),
        (example_world (Completed 0 []), Add_bcc ''hidden@x'')]"
  by (simp add: program_def copies_builder_def builder_without_recipients_def)

theorem build_recipient_headers_witness:
  "build example_lib copies_builder = (Inr copies_message, copies_builder\<lparr>msg := copies_message\<rparr>)
   \<and> copies_builder =
       program example_lib
         [(example_world (Completed 0 []), Set_subject ''Test''),
          (example_world (Completed 0 []), Set_body ''Body'' ''plain''),
          (example_world (Completed 0 []), Add_to ''a@x''),
          (example_world (Completed 0 []), Add_to ''b@x''),
          (example_world (Completed 0 []), Add_cc ''c@x''),
          (example_world (Completed 0 []), Add_bcc ''hidden@x'')]
   \<and> msg_get copies_message ''To'' = Some ''a@x, b@x''
   \<and> msg_get copies_message ''Cc'' = Some ''c@x''
   \<and> msg_get copies_message ''Bcc'' = None
   \<and> ''hidden@x'' \<in> set (recipients (copies_builder\<lparr>msg := copies_message\<rparr>))"
proof -
  have 1: "msg_get (msg copies_builder) ''Bcc'' = None"
    by (simp add: copies_builder_eq msg_get_def lower_def lower_char_def)
  have 2: "to copies_builder = [''a@x'', ''b@x''] \<and> cc copies_builder = [''c@x'']
      \<and> bcc copies_builder = [''hidden@x'']"
    by (simp add: copies_builder_eq)
  show ?thesis
    using build_recipient_headers [OF build_copies_builder] 1 2 build_copies_builder
      copies_builder_program
    by (simp add: example_lib_def)
qed

subsection \<open>Setting a header twice\<close>

lemma check_body_payload: "payload m = payload m' \<Longrightarrow> check_body m = check_body m'"
  by (simp add: check_body_def)

text \<open>
  C9, as amended. \<^verbatim>\<open>set_subject\<close> does not replace a subject set before, and it does not
  add a second one either: on every builder whose message has a Subject header,
  \<^verbatim>\<open>set_subject(s2)\<close> raises \<^verbatim>\<open>ValueError\<close> (there may be at most one Subject header)
  and leaves the builder as it was. So after a \<^verbatim>\<open>set_subject(s1)\<close> that succeeded, the
  Subject read from the message stays the one of \<open>s1\<close> and the message keeps one Subject
  header. Likewise \<^verbatim>\<open>build()\<close> called again after a successful \<^verbatim>\<open>build()\<close> raises
  \<^verbatim>\<open>ValueError\<close> for the From header and appends no second From header.
\<close>

theorem set_subject_twice:
  "(msg_get (msg b) ''Subject'' \<noteq> None \<longrightarrow>
      set_subject lib s2 b
        = (Inl (ValueError ''There may be at most 1 Subject headers in a message''), b))
   \<and> (set_subject lib s1 b0 = (Inr u, b1) \<longrightarrow>
        set_subject lib s2 b1
          = (Inl (ValueError ''There may be at most 1 Subject headers in a message''), b1)
        \<and> msg_get (msg b1) ''Subject'' = Some (header_factory lib ''Subject'' s1)
        \<and> count_headers (msg b1) ''Subject'' = 1)
   \<and> (build lib b2 = (Inr m, b3) \<longrightarrow>
        build lib b3
          = (Inl (ValueError ''There may be at most 1 From headers in a message''), b3)
        \<and> count_headers (msg b3) ''From'' = 1)"
proof -
  have 1: "\<And>b. msg_get (msg b) ''Subject'' \<noteq> None \<Longrightarrow>
      set_subject lib s2 b
        = (Inl (ValueError ''There may be at most 1 Subject headers in a message''), b)"
    using setitem_present [OF unique_Subject] by (simp add: set_subject_def)
  have 2: "set_subject lib s1 b0 = (Inr u, b1) \<Longrightarrow>
        set_subject lib s2 b1
          = (Inl (ValueError ''There may be at most 1 Subject headers in a message''), b1)
        \<and> msg_get (msg b1) ''Subject'' = Some (header_factory lib ''Subject'' s1)
        \<and> count_headers (msg b1) ''Subject'' = 1"
  proof -
    assume a: "set_subject lib s1 b0 = (Inr u, b1)"
    then obtain m1 where s: "setitem lib (msg b0) ''Subject'' s1 = Inr m1" and b1: "b1 = b0\<lparr>msg := m1\<rparr>"
      by (auto simp: set_subject_def split: sum.splits)
    note e = setitem_Inr [OF s]
    have n: "msg_get (msg b0) ''Subject'' = None" by (rule e(2)) (rule unique_Subject)
    have g: "msg_get (msg b1) ''Subject'' = Some (header_factory lib ''Subject'' s1)"
      by (simp add: b1 e(1) msg_get_append n)
    have c: "count_headers (msg b1) ''Subject'' = 1"
      using n by (simp add: b1 e(1) count_headers_append count_headers_get)
    show ?thesis using 1 [of b1] g c by simp
  qed
  have 3: "build lib b2 = (Inr m, b3) \<Longrightarrow>
        build lib b3
          = (Inl (ValueError ''There may be at most 1 From headers in a message''), b3)
        \<and> count_headers (msg b3) ''From'' = 1"
  proof -
    assume a: "build lib b2 = (Inr m, b3)"
    from build_Inr_headers [OF a] obtain sender where
      f: "formataddr lib (from_full_name b2) MSMTP_FROM_EMAIL = Inr sender" and
      h: "headers m = headers (msg b2) @ [(''From'', header_factory lib ''From'' sender)]
           @ (if to b2 = [] then [] else [(''To'', header_factory lib ''To'' (join '', '' (to b2)))])
           @ (if cc b2 = [] then [] else [(''Cc'', header_factory lib ''Cc'' (join '', '' (cc b2)))])" and
      p: "payload m = payload (msg b2)" and
      b3: "b3 = b2\<lparr>msg := m\<rparr>" and
      g: "msg_get (msg b2) ''From'' = None"
      by blast
    from build_Inr [OF a] have v: "\<not> no_recipients b2 \<and> \<not> subject_unset b2 \<and> \<not> no_body b2"
      by blast
    have fr: "msg_get m ''From'' = Some (header_factory lib ''From'' sender)"
      by (simp add: msg_get_headers_append [OF h] g lower_From)
    have su: "msg_get m ''Subject'' = msg_get (msg b2) ''Subject''"
      using v by (auto simp: msg_get_headers_append [OF h] subject_unset_def split: option.splits)
    have cb: "check_body m = None"
      using v check_body_payload [OF p] by (simp add: check_body_iff)
    have "setitem lib m ''From'' sender
        = Inl (ValueError ''There may be at most 1 From headers in a message'')"
      using setitem_present [OF unique_From, of m lib sender] fr by simp
    then have r: "build lib b3
          = (Inl (ValueError ''There may be at most 1 From headers in a message''), b3)"
      using v f su cb
      by (auto simp: build_def b3 no_recipients_def subject_unset_def split: option.splits)
    have "count_headers (msg b2) ''From'' = 0" using g by (simp add: count_headers_get)
    then have "count_headers m ''From'' = 1"
      using h by (simp add: count_headers_def lower_From lower_To lower_Cc)
    then show ?thesis using r by (simp add: b3)
  qed
  show ?thesis using 1 2 3 by blast
qed

lemma subject_builder_eq:
  "subject_builder =
     \<lparr>msg = \<lparr>headers = [(''Subject'', ''A'')], payload = NoPayload\<rparr>,
      from_full_name = MSMTP_DEFAULT_FULLNAME, to = [], cc = [], bcc = []\<rparr>"
  by (simp add: subject_builder_def model_defs)

theorem set_subject_twice_witness:
  "set_subject example_lib ''A'' new_builder = (Inr (), subject_builder)
   \<and> set_subject example_lib ''B'' subject_builder
       = (Inl (ValueError ''There may be at most 1 Subject headers in a message''), subject_builder)
   \<and> msg_get (msg subject_builder) ''Subject'' = Some ''A''
   \<and> build example_lib example_builder = (Inr example_message, example_builder\<lparr>msg := example_message\<rparr>)
   \<and> build example_lib (example_builder\<lparr>msg := example_message\<rparr>)
       = (Inl (ValueError ''There may be at most 1 From headers in a message''),
          example_builder\<lparr>msg := example_message\<rparr>)"
proof -
  have 1: "set_subject example_lib ''A'' new_builder = (Inr (), subject_builder)"
    by (simp add: subject_builder_eq model_defs)
  show ?thesis
    using 1 build_example_builder
      set_subject_twice [of subject_builder example_lib "''B''" "''A''" new_builder "()"
        subject_builder example_builder example_message "example_builder\<lparr>msg := example_message\<rparr>"]
    by (simp add: example_lib_def)
qed

text \<open>
  The second \<^verbatim>\<open>set_subject\<close> and the second \<^verbatim>\<open>build()\<close> raise; the message has one
  Subject header and one From header, not two.
\<close>

theorem set_subject_counterexample:
  "set_subject example_lib ''A'' new_builder = (Inr (), subject_builder)
   \<and> fst (set_subject example_lib ''B'' subject_builder)
       = Inl (ValueError ''There may be at most 1 Subject headers in a message'')
   \<and> headers (msg (snd (set_subject example_lib ''B'' subject_builder))) = [(''Subject'', ''A'')]
   \<and> count_headers (msg (snd (set_subject example_lib ''B'' subject_builder))) ''Subject'' = 1
   \<and> fst (build example_lib (snd (build example_lib example_builder)))
       = Inl (ValueError ''There may be at most 1 From headers in a message'')
   \<and> count_headers (msg (snd (build example_lib (snd (build example_lib example_builder))))) ''From'' = 1"
  by (simp add: subject_builder_eq example_message_def example_builder_eq build_defs model_defs)

subsection \<open>Loading a recipients file\<close>

lemma fold_add_to: "fold add_to xs b = b\<lparr>to := to b @ xs\<rparr>"
  by (induction xs arbitrary: b) (simp_all add: add_to_def)

lemma py_iter_truthy: "truthy emails \<Longrightarrow> py_iter emails = Inr items \<Longrightarrow> items \<noteq> []"
  by (cases emails) auto

lemma load_failure:
  "load_recipients_from_file w path b = (Inl e, b') \<Longrightarrow> (\<exists>s. e = EmailBuildError s) \<and> b' = b"
  by (auto simp: load_recipients_from_file_def try_load_def
      split: sum.splits prod.splits if_splits)

text \<open>
  C5. \<^verbatim>\<open>load_recipients_from_file\<close> on a JSON object reads its \<^verbatim>\<open>recipients\<close> member (a
  missing member counts as the empty list), on a JSON array uses the array itself, and on
  any other shape fails with a build error; an empty list fails with a build error;
  otherwise every address is appended to the To list, in order. So loading
  \<^verbatim>\<open>{"recipients": ["a@x","b@x"]}\<close> gives To = [a@x, b@x], loading \<^verbatim>\<open>["c@x","d@x"]\<close> gives
  To = [c@x, d@x], and \<^verbatim>\<open>{}\<close> and \<^verbatim>\<open>[]\<close> fail with a build error that carries the message
  of the cause, as does a file that cannot be read or parsed.
\<close>

theorem load_recipients_shapes:
  "(read_json w path = Inr (JObj kvs) \<and> map_of kvs ''recipients'' = Some (JArr xs) \<and> xs \<noteq> [] \<longrightarrow>
      load_recipients_from_file w path b = (Inr (), b\<lparr>to := to b @ xs\<rparr>))
   \<and> (read_json w path = Inr (JArr xs) \<and> xs \<noteq> [] \<longrightarrow>
      load_recipients_from_file w path b = (Inr (), b\<lparr>to := to b @ xs\<rparr>))
   \<and> (read_json w path = Inr (JObj kvs)
        \<and> (map_of kvs ''recipients'' = None \<or> map_of kvs ''recipients'' = Some (JArr [])) \<longrightarrow>
      load_recipients_from_file w path b
        = (Inl (EmailBuildError ''Error reading recipient file: No emails found in recipient file.''), b))
   \<and> (read_json w path = Inr (JArr []) \<longrightarrow>
      load_recipients_from_file w path b
        = (Inl (EmailBuildError ''Error reading recipient file: No emails found in recipient file.''), b))
   \<and> (read_json w path = Inr d \<and> (\<forall>kvs. d \<noteq> JObj kvs) \<and> (\<forall>xs. d \<noteq> JArr xs) \<longrightarrow>
      load_recipients_from_file w path b
        = (Inl (EmailBuildError ''Error reading recipient file: Recipient file format not recognized.''), b))
   \<and> (read_json w path = Inl e \<longrightarrow>
      load_recipients_from_file w path b
        = (Inl (EmailBuildError (''Error reading recipient file: '' @ exn_str e)), b))"
  by (cases d)
     (auto simp: load_recipients_from_file_def try_load_def recipient_emails_def fold_add_to)

theorem load_recipients_shapes_witness:
  "load_recipients_from_file (example_world (Completed 0 [])) ''object.json'' new_builder
     = (Inr (), new_builder\<lparr>to := [''a@x'', ''b@x'']\<rparr>)
   \<and> load_recipients_from_file (example_world (Completed 0 [])) ''array.json'' new_builder
     = (Inr (), new_builder\<lparr>to := [''c@x'', ''d@x'']\<rparr>)
   \<and> load_recipients_from_file (example_world (Completed 0 [])) ''empty_object.json'' new_builder
     = (Inl (EmailBuildError ''Error reading recipient file: No emails found in recipient file.''),
        new_builder)
   \<and> load_recipients_from_file (example_world (Completed 0 [])) ''empty_array.json'' new_builder
     = (Inl (EmailBuildError ''Error reading recipient file: No emails found in recipient file.''),
        new_builder)
   \<and> load_recipients_from_file (example_world (Completed 0 [])) ''missing.json'' new_builder
     = (Inl (EmailBuildError ''Error reading recipient file: [Errno 2] No such file or directory''),
        new_builder)"
proof -
  let ?w = "example_world (Completed 0 [])"
  have 1: "read_json ?w ''object.json'' = Inr (JObj [(''recipients'', JArr [''a@x'', ''b@x''])])"
    and 2: "read_json ?w ''array.json'' = Inr (JArr [''c@x'', ''d@x''])"
    and 3: "read_json ?w ''empty_object.json'' = Inr (JObj [])"
    and 4: "read_json ?w ''empty_array.json'' = Inr (JArr [])"
    and 5: "read_json ?w ''missing.json'' = Inl (OSError ''[Errno 2] No such file or directory'')"
    by (simp_all add: example_world_def)
  have 6: "to new_builder = []" by (simp add: new_builder_def)
  show ?thesis
    using
      load_recipients_shapes [of ?w "''object.json''" "[(''recipients'', JArr [''a@x'', ''b@x''])]"
        "[''a@x'', ''b@x'']" new_builder JNull "OSError []"]
      load_recipients_shapes [of ?w "''array.json''" "[]" "[''c@x'', ''d@x'']" new_builder JNull "OSError []"]
      load_recipients_shapes [of ?w "''empty_object.json''" "[]" "[]" new_builder JNull "OSError []"]
      load_recipients_shapes [of ?w "''empty_array.json''" "[]" "[]" new_builder JNull "OSError []"]
      load_recipients_shapes [of ?w "''missing.json''" "[]" "[]" new_builder JNull
        "OSError ''[Errno 2] No such file or directory''"]
    by (simp add: 1 2 3 4 5 6)
qed

text \<open>
  C10. \<^verbatim>\<open>load_recipients_from_file\<close> is atomic: whenever it raises, what it raises is a
  build error and the builder, with its To, Cc and Bcc lists, is as it was before the
  call; this is so on every failure path, namely an unreadable file or a parse failure,
  an unrecognised shape and an empty list, each of which does raise. Addresses are
  appended only once all checks have passed, and then all of them are.
\<close>

theorem load_recipients_atomic:
  "(load_recipients_from_file w path b = (Inl e, b') \<longrightarrow>
      (\<exists>s. e = EmailBuildError s) \<and> b' = b \<and> to b' = to b \<and> cc b' = cc b \<and> bcc b' = bcc b)
   \<and> (load_recipients_from_file w path b = (Inr u, b') \<longrightarrow>
      (\<exists>xs. xs \<noteq> [] \<and> b' = b\<lparr>to := to b @ xs\<rparr>))
   \<and> (read_json w path = Inl c
        \<or> (\<exists>d. read_json w path = Inr d \<and> (\<forall>kvs. d \<noteq> JObj kvs) \<and> (\<forall>xs. d \<noteq> JArr xs))
        \<or> read_json w path = Inr (JArr [])
        \<or> (\<exists>kvs. read_json w path = Inr (JObj kvs) \<and> map_of kvs ''recipients'' \<in> {None, Some (JArr [])})
      \<longrightarrow> (\<exists>s. load_recipients_from_file w path b = (Inl (EmailBuildError s), b)))"
proof -
  have 1: "load_recipients_from_file w path b = (Inl e, b') \<Longrightarrow>
      (\<exists>s. e = EmailBuildError s) \<and> b' = b \<and> to b' = to b \<and> cc b' = cc b \<and> bcc b' = bcc b"
    using load_failure [of w path b e b'] by simp
  have 2: "load_recipients_from_file w path b = (Inr u, b') \<Longrightarrow>
      (\<exists>xs. xs \<noteq> [] \<and> b' = b\<lparr>to := to b @ xs\<rparr>)"
  proof -
    assume a: "load_recipients_from_file w path b = (Inr u, b')"
    then obtain emails items where "truthy emails" "py_iter emails = Inr items"
      "b' = fold add_to items b"
      by (auto simp: load_recipients_from_file_def try_load_def
          split: sum.splits prod.splits if_splits)
    then have "items \<noteq> [] \<and> b' = b\<lparr>to := to b @ items\<rparr>"
      using py_iter_truthy by (simp add: fold_add_to)
    then show ?thesis by blast
  qed
  have 3: "read_json w path = Inl c
        \<or> (\<exists>d. read_json w path = Inr d \<and> (\<forall>kvs. d \<noteq> JObj kvs) \<and> (\<forall>xs. d \<noteq> JArr xs))
        \<or> read_json w path = Inr (JArr [])
        \<or> (\<exists>kvs. read_json w path = Inr (JObj kvs) \<and> map_of kvs ''recipients'' \<in> {None, Some (JArr [])})
      \<Longrightarrow> (\<exists>s. load_recipients_from_file w path b = (Inl (EmailBuildError s), b))"
    by (auto simp: load_recipients_from_file_def try_load_def recipient_emails_def
        split: json.splits)
  show ?thesis using 1 2 3 by blast
qed

theorem load_recipients_atomic_witness:
  "load_recipients_from_file (example_world (Completed 0 [])) ''missing.json'' example_builder
     = (Inl (EmailBuildError ''Error reading recipient file: [Errno 2] No such file or directory''),
        example_builder)
   \<and> load_recipients_from_file (example_world (Completed 0 [])) ''empty_array.json'' example_builder
     = (Inl (EmailBuildError ''Error reading recipient file: No emails found in recipient file.''),
        example_builder)
   \<and> to (snd (load_recipients_from_file (example_world (Completed 0 [])) ''empty_object.json'' example_builder))
     = [''dest@example.com'']
   \<and> to (snd (load_recipients_from_file (example_world (Completed 0 [])) ''array.json'' example_builder))
     = [''dest@example.com'', ''c@x'', ''d@x'']"
proof -
  let ?w = "example_world (Completed 0 [])"
  have 1: "load_recipients_from_file ?w ''missing.json'' example_builder
     = (Inl (EmailBuildError ''Error reading recipient file: [Errno 2] No such file or directory''),
        snd (load_recipients_from_file ?w ''missing.json'' example_builder))"
    and 2: "load_recipients_from_file ?w ''empty_array.json'' example_builder
     = (Inl (EmailBuildError ''Error reading recipient file: No emails found in recipient file.''),
        snd (load_recipients_from_file ?w ''empty_array.json'' example_builder))"
    and 3: "load_recipients_from_file ?w ''empty_object.json'' example_builder
     = (Inl (EmailBuildError ''Error reading recipient file: No emails found in recipient file.''),
        snd (load_recipients_from_file ?w ''empty_object.json'' example_builder))"
    and 4: "load_recipients_from_file ?w ''array.json'' example_builder
     = (Inr (), snd (load_recipients_from_file ?w ''array.json'' example_builder))"
    by (simp_all add: load_recipients_from_file_def try_load_def recipient_emails_def
        example_world_def)
  have 5: "to example_builder = [''dest@example.com'']"
    by (simp add: example_builder_eq)
  have 6: "read_json ?w ''array.json'' = Inr (JArr [''c@x'', ''d@x''])"
    by (simp add: example_world_def)
  have 7: "load_recipients_from_file ?w ''array.json'' example_builder
      = (Inr (), example_builder\<lparr>to := to example_builder @ [''c@x'', ''d@x'']\<rparr>)"
    using 6 by (simp add: load_recipients_from_file_def try_load_def recipient_emails_def add_to_def)
  show ?thesis
    using 5 7
      load_recipients_atomic [where w = "?w" and path = "''missing.json''" and b = example_builder,
        THEN conjunct1, rule_format, OF 1]
      load_recipients_atomic [where w = "?w" and path = "''empty_array.json''" and b = example_builder,
        THEN conjunct1, rule_format, OF 2]
      load_recipients_atomic [where w = "?w" and path = "''empty_object.json''" and b = example_builder,
        THEN conjunct1, rule_format, OF 3]
      1 2 3
    by simp
qed

subsection \<open>Sending\<close>







lemma write_log_writable:
  "log_writable c w \<Longrightarrow>
   write_log c success subject rcpts error w =
     (Inr (),
      (case log_file c of
         None \<Rightarrow> w
       | Some path \<Rightarrow>
           if path = [] then w
           else w\<lparr>dirs := insert (dirname path) (dirs w),
                  files := (files w)(path \<mapsto>
                    (case files w path of None \<Rightarrow> [] | Some old \<Rightarrow> old)
                      @ log_line (now w) success subject rcpts error)\<rparr>))"
  by (auto simp: log_writable_def write_log_def makedirs_def append_file_def split: option.splits)

lemma write_log_calls: "calls (snd (write_log c success subject rcpts error w)) = calls w"
  by (auto simp: write_log_def makedirs_def append_file_def split: option.splits)


lemma send_built:
  assumes "build lib b = (Inr m, b')"
  shows "send lib c b timeout w =
     (let rcpts = recipients b';
          w1 = w\<lparr>calls := calls w @ [(build_cmd c rcpts, as_bytes lib m, timeout)]\<rparr>
      in case subprocess w (build_cmd c rcpts) (as_bytes lib m) timeout of
           RunRaised e \<Rightarrow>
             (case write_log c False (msg_get m ''Subject'') rcpts (Some (exn_str e)) w1 of
                (Inl e', w2) \<Rightarrow> (Inl e', b', w2)
              | (Inr u, w2) \<Rightarrow> (Inl (MsmtpSendError (exn_str e)), b', w2))
         | Completed returncode err \<Rightarrow>
             if returncode \<noteq> 0
             then (case write_log c False (msg_get m ''Subject'') rcpts (Some err) w1 of
                     (Inl e', w2) \<Rightarrow> (Inl e', b', w2)
                   | (Inr u, w2) \<Rightarrow> (Inl (MsmtpSendError err), b', w2))
             else (case write_log c True (msg_get m ''Subject'') rcpts None w1 of
                     (Inl e', w2) \<Rightarrow> (Inl e', b', w2)
                   | (Inr u, w2) \<Rightarrow> (Inr (), b', w2)))"
  using assms by (simp add: send_def subprocess_run_def Let_def split: run_result.splits)


text \<open>
  C1, as amended. For every builder that builds and every timeout, provided that the log
  write goes through when a log file is configured, \<^verbatim>\<open>send\<close> raises \<^verbatim>\<open>MsmtpSendError\<close>
  with the message of the underlying exception when the external process cannot be
  started or exceeds the timeout, raises \<^verbatim>\<open>MsmtpSendError\<close> with the captured
  standard-error text (which the message therefore contains) when the process exits
  non-zero, and returns without a value on exit code 0.
\<close>

theorem send_transport_error:
  assumes "build lib b = (Inr m, b')" and "log_writable c w"
  shows "(subprocess w (build_cmd c (recipients b')) (as_bytes lib m) timeout = RunRaised e \<longrightarrow>
        fst (send lib c b timeout w) = Inl (MsmtpSendError (exn_str e)))
     \<and> (subprocess w (build_cmd c (recipients b')) (as_bytes lib m) timeout = Completed rc err
          \<and> rc \<noteq> 0 \<longrightarrow>
        fst (send lib c b timeout w) = Inl (MsmtpSendError err) \<and> contains err err)
     \<and> (subprocess w (build_cmd c (recipients b')) (as_bytes lib m) timeout = Completed 0 err \<longrightarrow>
        fst (send lib c b timeout w) = Inr ())"
proof -
  have l: "log_writable c (w\<lparr>calls := calls w @ [(build_cmd c (recipients b'), as_bytes lib m, timeout)]\<rparr>)"
    using assms(2) by (simp add: log_writable_def split: option.splits)
  have "contains err err" using contains_self_prefix [of err "[]"] by simp
  then show ?thesis
    by (simp add: send_built [OF assms(1)] Let_def write_log_writable [OF l])
qed

theorem send_transport_error_witness:
  "fst (send example_lib new_client example_builder 60 (example_world (Completed 1 ''AUTH error'')))
     = Inl (MsmtpSendError ''AUTH error'')
   \<and> contains ''AUTH error'' ''AUTH error''
   \<and> fst (send example_lib new_client example_builder 60
            (example_world (RunRaised (OSError ''[Errno 2] No such file or directory''))))
     = Inl (MsmtpSendError ''[Errno 2] No such file or directory'')
   \<and> fst (send example_lib logging_client example_builder 60 (example_world (Completed 0 [])))
     = Inr ()"
proof -
  have l: "\<And>r. log_writable new_client (example_world r)"
    "\<And>r. log_writable logging_client (example_world r)"
    by (simp_all add: log_writable_def new_client_def logging_client_def example_world_def dirname_def)
  have s: "\<And>r cmd input timeout. subprocess (example_world r) cmd input timeout = r"
    by (simp add: example_world_def)
  show ?thesis
    using
      send_transport_error [OF build_example_builder l(1), of "Completed 1 ''AUTH error''" 60
        "OSError []" 1 "''AUTH error''"]
      send_transport_error [OF build_example_builder l(1),
        of "RunRaised (OSError ''[Errno 2] No such file or directory'')" 60
        "OSError ''[Errno 2] No such file or directory''" 1 "[]"]
      send_transport_error [OF build_example_builder l(2), of "Completed 0 []" 60
        "OSError []" 1 "[]"]
    by (simp add: s)
qed

lemma send_denied:
  "fst (send example_lib logging_client example_builder timeout (denied_world r))
     = Inl (OSError ''[Errno 13] Permission denied'')"
  by (simp add: send_built [OF build_example_builder] Let_def write_log_def makedirs_def
      append_file_def dirname_def denied_world_def example_world_def logging_client_def
      new_client_def split: run_result.splits)

text \<open>
  The client of \<^verbatim>\<open>Example.py\<close>, a process that exits with code 1 and a log file that
  cannot be opened: what \<^verbatim>\<open>send()\<close> raises is the error of the log write.
\<close>

theorem send_transport_error_counterexample:
  "fst (send example_lib logging_client example_builder 60 (denied_world (Completed 1 ''AUTH error'')))
     = Inl (OSError ''[Errno 13] Permission denied'')
   \<and> fst (build example_lib example_builder) = Inr example_message
   \<and> subprocess (denied_world (Completed 1 ''AUTH error''))
        (build_cmd logging_client (recipients example_builder)) (as_bytes example_lib example_message) 60
     = Completed 1 ''AUTH error''"
proof -
  have "subprocess (denied_world (Completed 1 ''AUTH error''))
        (build_cmd logging_client (recipients example_builder)) (as_bytes example_lib example_message) 60
     = Completed 1 ''AUTH error''"
    by (simp add: denied_world_def example_world_def)
  then show ?thesis
    using send_denied [of 60 "Completed 1 ''AUTH error''"] build_example_builder by simp
qed


lemma build_recipients: "build lib b = (r, b') \<Longrightarrow> recipients b' = recipients b"
  by (auto simp: build_def recipients_def split: if_splits option.splits sum.splits)

lemma send_built_world:
  assumes "build lib b = (Inr m, b')"
  shows "\<exists>s error. snd (snd (send lib c b timeout w))
      = snd (write_log c s (msg_get m ''Subject'') (recipients b') error
          (w\<lparr>calls := calls w @ [(build_cmd c (recipients b'), as_bytes lib m, timeout)]\<rparr>))"
proof (cases "subprocess w (build_cmd c (recipients b')) (as_bytes lib m) timeout")
  case (RunRaised e)
  show ?thesis
    by (rule exI [of _ False], rule exI [of _ "Some (exn_str e)"])
       (simp add: send_built [OF assms] Let_def RunRaised split: prod.splits sum.splits)
next
  case (Completed rc err)
  show ?thesis
  proof (cases "rc = 0")
    case True
    show ?thesis
      by (rule exI [of _ True], rule exI [of _ None])
         (simp add: send_built [OF assms] Let_def Completed True split: prod.splits sum.splits)
  next
    case False
    show ?thesis
      by (rule exI [of _ False], rule exI [of _ "Some err"])
         (simp add: send_built [OF assms] Let_def Completed False split: prod.splits sum.splits)
  qed
qed

text \<open>
  C7, as amended. For every recipient list, \<^verbatim>\<open>send()\<close> on a builder that builds invokes
  the external program once, with the argument list binary path, \<^verbatim>\<open>-a\<close>, the fixed
  account and then every recipient address in order, the serialised message on its
  standard input and the given timeout, whatever the log configuration; on exit code 0
  \<^verbatim>\<open>send()\<close> returns normally provided that the log write goes through when a log file is
  configured.
\<close>

theorem send_invocation:
  assumes "build lib b = (Inr m, b')"
  shows "calls (snd (snd (send lib c b timeout w)))
        = calls w @ [([msmtp_path c, ''-a'', MSMTP_ACCOUNT] @ recipients b, as_bytes lib m, timeout)]
     \<and> (subprocess w ([msmtp_path c, ''-a'', MSMTP_ACCOUNT] @ recipients b) (as_bytes lib m) timeout
            = Completed 0 err
          \<and> log_writable c w \<longrightarrow>
        fst (send lib c b timeout w) = Inr ())"
proof -
  let ?w1 = "w\<lparr>calls := calls w @ [(build_cmd c (recipients b'), as_bytes lib m, timeout)]\<rparr>"
  have r: "recipients b' = recipients b" using assms by (rule build_recipients)
  have 1: "calls (snd (snd (send lib c b timeout w))) = calls ?w1"
    using send_built_world [OF assms, of c timeout w] write_log_calls by metis
  have l: "log_writable c w \<Longrightarrow> log_writable c ?w1"
    by (simp add: log_writable_def split: option.splits)
  have 2: "subprocess w (build_cmd c (recipients b')) (as_bytes lib m) timeout = Completed 0 err \<Longrightarrow>
      log_writable c w \<Longrightarrow> fst (send lib c b timeout w) = Inr ()"
    using l by (simp add: send_built [OF assms] Let_def write_log_writable)
  show ?thesis using 1 2 by (simp add: r build_cmd_def)
qed

theorem send_invocation_witness:
  "calls (snd (snd (send example_lib new_client example_builder 60 (example_world (Completed 0 [])))))
     = [([''/usr/bin/msmtp'', ''-a'', ''gmail'', ''dest@example.com''],
         as_bytes example_lib example_message, 60)]
   \<and> fst (send example_lib new_client example_builder 60 (example_world (Completed 0 []))) = Inr ()"
proof -
  have l: "log_writable new_client (example_world (Completed 0 []))"
    by (simp add: log_writable_def new_client_def)
  have s: "\<And>cmd input timeout. subprocess (example_world (Completed 0 [])) cmd input timeout = Completed 0 []"
    "calls (example_world (Completed 0 [])) = []"
    by (simp_all add: example_world_def)
  have r: "recipients example_builder = [''dest@example.com'']"
    by (simp add: example_builder_eq recipients_def dict_fromkeys_def fromkeys_step_def)
  show ?thesis
    using send_invocation [OF build_example_builder, of new_client 60 "example_world (Completed 0 [])" "[]"] l
    by (simp add: s r new_client_def MSMTP_ACCOUNT_def)
qed

text \<open>The same client and log file, and a process that exits with code 0: \<^verbatim>\<open>send()\<close> raises.\<close>

theorem send_invocation_counterexample:
  "subprocess (denied_world (Completed 0 []))
      ([msmtp_path logging_client, ''-a'', MSMTP_ACCOUNT] @ recipients example_builder)
      (as_bytes example_lib example_message) 60
     = Completed 0 []
   \<and> fst (send example_lib logging_client example_builder 60 (denied_world (Completed 0 [])))
     = Inl (OSError ''[Errno 13] Permission denied'')
   \<and> fst (send example_lib logging_client example_builder 60 (denied_world (Completed 0 [])))
     \<noteq> Inr ()"
proof -
  have "subprocess (denied_world (Completed 0 []))
      ([msmtp_path logging_client, ''-a'', MSMTP_ACCOUNT] @ recipients example_builder)
      (as_bytes example_lib example_message) 60
     = Completed 0 []"
    by (simp add: denied_world_def example_world_def)
  then show ?thesis
    using send_denied [of 60 "Completed 0 []"] by simp
qed















end
